theory Spec2Isabelle
  imports Main
begin

section \<open>cloudfront-short-url: the redirect url generator\<close>

text \<open>
  A shallow embedding of \<^verbatim>\<open>src/cloudfront_short_url/generator.py\<close>.

  Python strings are \<open>string\<close> (one \<open>char\<close> stands for one code point, so \<open>length\<close> is
  Python's \<open>len\<close>). Everything outside the module is part of an explicit \<open>world\<close> that each
  method takes and returns: the operating system's random source, the attributes that
  \<open>setattr\<close> stores on the class and on instances, the \<open>settings\<close> attribute of every
  instance, and the S3 service behind boto3. The service is an oracle: the model fixes
  nothing about what it answers, it only records which requests were sent. The module
  changes the store through \<open>put_object\<close> requests only, so the store is untouched as long
  as none is sent.
  An exception is a value of type \<open>exc\<close>; a method that may raise returns \<open>exc + 'a\<close>.

  A method runs from start to end without another call in between; only the cached
  property, whose test and store can be separated by another thread, is also given line
  by line. \<open>ShortUrl\<close> is the only class (the repository has no subclass of it).
\<close>

subsection \<open>Exceptions\<close>

datatype exc =
    ClientError string      \<comment> \<open>botocore.exceptions.ClientError, with \<open>response["Error"]["Code"]\<close>\<close>
  | AttributeError string   \<comment> \<open>getattr of a missing attribute\<close>
  | FrozenInstanceError     \<comment> \<open>dataclasses: assignment to a field of a frozen dataclass\<close>
  | TypeError               \<comment> \<open>a call without a required argument\<close>
  | OtherException string   \<comment> \<open>any other exception of the client: connection errors, timeouts, ...\<close>

subsection \<open>Settings\<close>

text \<open>
  \<^verbatim>\<open>@dataclass class Settings\<close>: four required fields and two with defaults (8 and "s3v4").
\<close>

record Settings =
  region :: string
  bucket :: string
  prefix :: string
  cloudfront_distro :: string
  random_digits :: int
  boto_signature_version :: string

definition default_random_digits :: int where
  "default_random_digits = 8"

definition default_boto_signature_version :: string where
  "default_boto_signature_version = ''s3v4''"

text \<open>
  The constructor that \<^verbatim>\<open>@dataclass\<close> generates: an argument that is not given is \<open>None\<close>.
  A missing required argument raises \<open>TypeError\<close>; the last two have defaults.
\<close>

definition Settings_new ::
  "string option \<Rightarrow> string option \<Rightarrow> string option \<Rightarrow> string option \<Rightarrow>
   int option \<Rightarrow> string option \<Rightarrow> exc + Settings" where
  "Settings_new rgn bkt pfx distro ndig sig =
     (case (rgn, bkt, pfx, distro) of
        (Some r, Some b, Some p, Some d) \<Rightarrow>
          Inr \<lparr>region = r, bucket = b, prefix = p, cloudfront_distro = d,
               random_digits = (case ndig of None \<Rightarrow> default_random_digits | Some n \<Rightarrow> n),
               boto_signature_version =
                 (case sig of None \<Rightarrow> default_boto_signature_version | Some v \<Rightarrow> v)\<rparr>
      | _ \<Rightarrow> Inl TypeError)"

text \<open>
  The decorator is written \<^verbatim>\<open>@dataclass\<close>, with no argument, so \<open>frozen\<close> has its default
  \<open>False\<close>. The \<open>dataclasses\<close> module generates a \<open>__setattr__\<close> that raises
  \<open>FrozenInstanceError\<close> only for \<open>frozen=True\<close>; otherwise an assignment
  \<^verbatim>\<open>settings.field = value\<close> stores the value. \<open>upd\<close> is the field update.
\<close>

definition Settings_frozen :: bool where
  "Settings_frozen = False"

definition Settings_setattr :: "(Settings \<Rightarrow> Settings) \<Rightarrow> Settings \<Rightarrow> exc + Settings" where
  "Settings_setattr upd s = (if Settings_frozen then Inl FrozenInstanceError else Inr (upd s))"

subsection \<open>The world\<close>

record s3_client =
  region_name :: string
  signature_version :: string

record put_kwargs =
  Bucket :: string
  Key :: string
  Body :: string
  WebsiteRedirectLocation :: string
  ContentType :: string

datatype request =
    HeadObject string string   \<comment> \<open>\<open>head_object(Bucket=..., Key=...)\<close>\<close>
  | PutObject put_kwargs       \<comment> \<open>\<open>put_object(**kwargs)\<close>\<close>

text \<open>An instance of \<open>ShortUrl\<close> is its identity; \<open>ClassObj\<close> is the class \<open>ShortUrl\<close> itself.\<close>

type_synonym ShortUrl = nat

datatype pyobj = ClassObj | InstObj ShortUrl

record world =
  entropy :: "nat \<Rightarrow> nat"
    \<comment> \<open>\<open>random.SystemRandom()\<close>: the number drawn at each position of the random source\<close>
  draws :: nat
    \<comment> \<open>how many numbers have been drawn\<close>
  settings_of :: "ShortUrl \<Rightarrow> Settings"
    \<comment> \<open>\<open>self.settings\<close> of every instance\<close>
  attrs :: "pyobj \<Rightarrow> string \<Rightarrow> s3_client option"
    \<comment> \<open>the attributes stored by \<open>setattr\<close>, per object\<close>
  clients :: "s3_client list"
    \<comment> \<open>the clients built by \<open>boto3.client\<close>, oldest first\<close>
  respond :: "nat \<Rightarrow> s3_client \<Rightarrow> request \<Rightarrow> exc option"
    \<comment> \<open>the service: what the n-th request of the process raises (\<open>None\<close>: it succeeds)\<close>
  requests :: "(s3_client \<times> request) list"
    \<comment> \<open>the requests sent so far, oldest first, each with the client that sent it\<close>

subsection \<open>Attributes and the cached property\<close>

text \<open>
  Attribute lookup on an instance falls back to its class; on the class it sees the
  class's own attributes.
\<close>

definition lookup_attr :: "pyobj \<Rightarrow> string \<Rightarrow> world \<Rightarrow> s3_client option" where
  "lookup_attr obj name w =
     (case obj of
        ClassObj \<Rightarrow> attrs w ClassObj name
      | InstObj i \<Rightarrow> (case attrs w (InstObj i) name of
                       Some v \<Rightarrow> Some v
                     | None \<Rightarrow> attrs w ClassObj name))"

definition hasattr :: "pyobj \<Rightarrow> string \<Rightarrow> world \<Rightarrow> bool" where
  "hasattr obj name w = (lookup_attr obj name w \<noteq> None)"

definition getattr :: "pyobj \<Rightarrow> string \<Rightarrow> world \<Rightarrow> exc + s3_client" where
  "getattr obj name w =
     (case lookup_attr obj name w of
        None \<Rightarrow> Inl (AttributeError name)
      | Some v \<Rightarrow> Inr v)"

definition setattr :: "pyobj \<Rightarrow> string \<Rightarrow> s3_client \<Rightarrow> world \<Rightarrow> world" where
  "setattr obj name v w = w\<lparr>attrs := (attrs w)(obj := (attrs w obj)(name \<mapsto> v))\<rparr>"

text \<open>
  \<^verbatim>\<open>make_cached_property(func, cache_on_class)\<close>. \<open>func_name\<close> is \<open>func.__name__\<close>.
\<close>

definition make_cached_property ::
  "string \<Rightarrow> (ShortUrl \<Rightarrow> world \<Rightarrow> s3_client \<times> world) \<Rightarrow> bool \<Rightarrow>
   ShortUrl \<Rightarrow> world \<Rightarrow> (exc + s3_client) \<times> world" where
  "make_cached_property func_name func cache_on_class self w =
     (let attr_name = ''_cache_'' @ func_name;
          obj = (if cache_on_class then ClassObj else InstObj self);
          w1 = (if \<not> hasattr obj attr_name w
                then (case func self w of (v, w') \<Rightarrow> setattr obj attr_name v w')
                else w)
      in (getattr obj attr_name w1, w1))"

definition cached_property ::
  "string \<Rightarrow> (ShortUrl \<Rightarrow> world \<Rightarrow> s3_client \<times> world) \<Rightarrow>
   ShortUrl \<Rightarrow> world \<Rightarrow> (exc + s3_client) \<times> world" where
  "cached_property func_name func = make_cached_property func_name func False"

definition class_cached_property ::
  "string \<Rightarrow> (ShortUrl \<Rightarrow> world \<Rightarrow> s3_client \<times> world) \<Rightarrow>
   ShortUrl \<Rightarrow> world \<Rightarrow> (exc + s3_client) \<times> world" where
  "class_cached_property func_name func = make_cached_property func_name func True"

text \<open>
  The body of \<open>_cached_property\<close> line by line: the object that holds the cache (line 17),
  the test \<^verbatim>\<open>not hasattr(obj, attr_name)\<close> (line 19), the call of \<open>func\<close> with the store
  \<^verbatim>\<open>setattr(obj, attr_name, func(self))\<close> (line 20) and the read
  \<^verbatim>\<open>getattr(obj, attr_name)\<close> (line 22). The module holds no lock, so when several
  threads use \<open>ShortUrl\<close> another access can run between these lines.
\<close>

definition cache_owner :: "bool \<Rightarrow> ShortUrl \<Rightarrow> pyobj" where
  "cache_owner cache_on_class self = (if cache_on_class then ClassObj else InstObj self)"

definition cache_missing :: "string \<Rightarrow> bool \<Rightarrow> ShortUrl \<Rightarrow> world \<Rightarrow> bool" where
  "cache_missing func_name cache_on_class self w =
     (\<not> hasattr (cache_owner cache_on_class self) (''_cache_'' @ func_name) w)"

definition cache_fill ::
  "string \<Rightarrow> (ShortUrl \<Rightarrow> world \<Rightarrow> s3_client \<times> world) \<Rightarrow> bool \<Rightarrow> ShortUrl \<Rightarrow> world \<Rightarrow> world" where
  "cache_fill func_name func cache_on_class self w =
     (case func self w of
        (v, w') \<Rightarrow> setattr (cache_owner cache_on_class self) (''_cache_'' @ func_name) v w')"

definition cache_read :: "string \<Rightarrow> bool \<Rightarrow> ShortUrl \<Rightarrow> world \<Rightarrow> exc + s3_client" where
  "cache_read func_name cache_on_class self w =
     getattr (cache_owner cache_on_class self) (''_cache_'' @ func_name) w"

subsection \<open>ShortUrl\<close>

definition init :: "ShortUrl \<Rightarrow> Settings \<Rightarrow> world \<Rightarrow> world" where
  "init self settings w = w\<lparr>settings_of := (settings_of w)(self := settings)\<rparr>"

text \<open>
  \<^verbatim>\<open>boto3.client("s3", region_name=..., config=Config(signature_version=...))\<close>: the client
  is the pair of its two parameters, and each construction is recorded.
\<close>

definition boto3_client :: "string \<Rightarrow> string \<Rightarrow> world \<Rightarrow> s3_client \<times> world" where
  "boto3_client rgn sig w =
     (let c = \<lparr>region_name = rgn, signature_version = sig\<rparr>
      in (c, w\<lparr>clients := clients w @ [c]\<rparr>))"

definition s3_client_func :: "ShortUrl \<Rightarrow> world \<Rightarrow> s3_client \<times> world" where
  "s3_client_func self w =
     boto3_client (region (settings_of w self)) (boto_signature_version (settings_of w self)) w"

definition s3_client :: "ShortUrl \<Rightarrow> world \<Rightarrow> (exc + s3_client) \<times> world" where
  "s3_client = class_cached_property ''s3_client'' s3_client_func"

text \<open>\<^verbatim>\<open>string.ascii_lowercase + string.digits\<close>\<close>

definition ascii_lowercase :: string where
  "ascii_lowercase = ''abcdefghijklmnopqrstuvwxyz''"

definition digits :: string where
  "digits = ''0123456789''"

definition alphabet :: string where
  "alphabet = ascii_lowercase @ digits"

text \<open>
  \<^verbatim>\<open>random.SystemRandom().choice(seq)\<close> returns \<open>seq[i]\<close> for a random index below
  \<open>len(seq)\<close>: the next number of the random source, reduced modulo the length. (On an
  empty sequence Python raises; the only caller passes the 36 symbols.)
\<close>

definition choice :: "string \<Rightarrow> world \<Rightarrow> char \<times> world" where
  "choice seq w = (seq ! (entropy w (draws w) mod length seq), w\<lparr>draws := Suc (draws w)\<rparr>)"

text \<open>The generator expression joined by \<open>"".join\<close>: \<open>n\<close> choices, in order.\<close>

primrec join_choices :: "nat \<Rightarrow> world \<Rightarrow> string \<times> world" where
  "join_choices 0 w = ([], w)"
| "join_choices (Suc n) w =
     (case choice alphabet w of (c, w1) \<Rightarrow>
        (case join_choices n w1 of (cs, w2) \<Rightarrow> (c # cs, w2)))"

text \<open>\<open>range(k)\<close> is empty for \<open>k \<le> 0\<close>, so the number of rounds is \<open>nat k\<close>.\<close>

definition generate_random :: "ShortUrl \<Rightarrow> world \<Rightarrow> string \<times> world" where
  "generate_random self w = join_choices (nat (random_digits (settings_of w self))) w"

text \<open>\<^verbatim>\<open>"{}/{}".format(a, b)\<close>\<close>

definition format2 :: "string \<Rightarrow> string \<Rightarrow> string" where
  "format2 a b = a @ ''/'' @ b"

text \<open>A request is answered by the service and recorded.\<close>

definition send :: "s3_client \<Rightarrow> request \<Rightarrow> world \<Rightarrow> exc option \<times> world" where
  "send c r w = (respond w (length (requests w)) c r, w\<lparr>requests := requests w @ [(c, r)]\<rparr>)"

definition head_object :: "s3_client \<Rightarrow> string \<Rightarrow> string \<Rightarrow> world \<Rightarrow> exc option \<times> world" where
  "head_object c b k w = send c (HeadObject b k) w"

definition put_object :: "s3_client \<Rightarrow> put_kwargs \<Rightarrow> world \<Rightarrow> exc option \<times> world" where
  "put_object c kwargs w = send c (PutObject kwargs) w"

text \<open>
  The \<^verbatim>\<open>except botocore.exceptions.ClientError as exc\<close> clause of \<open>exists_s3_key\<close>: an
  exception of another class is not caught.
\<close>

fun except_ClientError :: "exc \<Rightarrow> exc + bool" where
  "except_ClientError (ClientError code) =
     (if code = ''404'' then Inr False
      else if code = ''403'' then Inr False
      else Inl (ClientError code))"
| "except_ClientError e = Inl e"

definition exists_s3_key :: "ShortUrl \<Rightarrow> string \<Rightarrow> world \<Rightarrow> (exc + bool) \<times> world" where
  "exists_s3_key self key w =
     (case s3_client self w of
        (Inl e, w1) \<Rightarrow> (except_ClientError e, w1)
      | (Inr c, w1) \<Rightarrow>
          (case head_object c (bucket (settings_of w1 self)) key w1 of
             (Some e, w2) \<Rightarrow> (except_ClientError e, w2)
           | (None, w2) \<Rightarrow> (Inr True, w2)))"

definition upload_kwargs :: "ShortUrl \<Rightarrow> string \<Rightarrow> string \<Rightarrow> world \<Rightarrow> put_kwargs" where
  "upload_kwargs self key native_url w =
     \<lparr>Bucket = bucket (settings_of w self),
      Key = key,
      Body = [],
      WebsiteRedirectLocation = native_url,
      ContentType = ''text/plain''\<rparr>"

definition upload_object :: "ShortUrl \<Rightarrow> string \<Rightarrow> string \<Rightarrow> world \<Rightarrow> exc option \<times> world" where
  "upload_object self key native_url w =
     (let kwargs = upload_kwargs self key native_url w
      in (case s3_client self w of
            (Inl e, w1) \<Rightarrow> (Some e, w1)
          | (Inr c, w1) \<Rightarrow> put_object c kwargs w1))"

text \<open>
  The \<^verbatim>\<open>while check:\<close> loop of \<open>generate\<close>. It has no bound, so it is a partial function:
  \<open>None\<close> means that the loop never ends. It ends with the key that the probe reported
  absent, or with the exception that the probe raised.
\<close>

partial_function (option) generate_loop ::
  "ShortUrl \<Rightarrow> world \<Rightarrow> ((exc + string) \<times> world) option" where
  "generate_loop self w =
     (case generate_random self w of (short_id, w1) \<Rightarrow>
        (let short_key = format2 (prefix (settings_of w1 self)) short_id
         in (case exists_s3_key self short_key w1 of
               (Inl e, w2) \<Rightarrow> Some (Inl e, w2)
             | (Inr check, w2) \<Rightarrow>
                 (if check then generate_loop self w2 else Some (Inr short_key, w2)))))"

definition generate :: "ShortUrl \<Rightarrow> string \<Rightarrow> world \<Rightarrow> ((exc + string) \<times> world) option" where
  "generate self native_url w =
     (case generate_loop self w of
        None \<Rightarrow> None
      | Some (Inl e, w1) \<Rightarrow> Some (Inl e, w1)
      | Some (Inr short_key, w1) \<Rightarrow>
          (case upload_object self short_key native_url w1 of
             (Some e, w2) \<Rightarrow> Some (Inl e, w2)
           | (None, w2) \<Rightarrow>
               Some (Inr (format2 (cloudfront_distro (settings_of w2 self)) short_key), w2)))"

subsection \<open>Python's \<open>str.split\<close>\<close>

text \<open>\<^verbatim>\<open>str.split('/')\<close>: the pieces between the slashes, empty pieces included.\<close>

fun split_slash :: "string \<Rightarrow> string list" where
  "split_slash [] = [[]]"
| "split_slash (c # cs) =
     (if c = CHR ''/'' then [] # split_slash cs
      else (case split_slash cs of
              [] \<Rightarrow> [[c]]
            | piece # pieces \<Rightarrow> (c # piece) # pieces))"

section \<open>Vocabulary of the properties\<close>

subsection \<open>The cached client\<close>

text \<open>
  The name under which \<open>s3_client\<close> is cached, the client that the class holds, and the
  client that an access by \<open>self\<close> yields: the cached one, or else the one built from the
  settings of \<open>self\<close>. \<open>with_client self w\<close> is the world after such an access.
\<close>

definition cache_attr :: string where
  "cache_attr = ''_cache_s3_client''"

definition cached_client :: "world \<Rightarrow> s3_client option" where
  "cached_client w = attrs w ClassObj cache_attr"

definition client_for :: "ShortUrl \<Rightarrow> world \<Rightarrow> s3_client" where
  "client_for self w =
     (case cached_client w of
        Some c \<Rightarrow> c
      | None \<Rightarrow> \<lparr>region_name = region (settings_of w self),
                 signature_version = boto_signature_version (settings_of w self)\<rparr>)"

definition with_client :: "ShortUrl \<Rightarrow> world \<Rightarrow> world" where
  "with_client self w =
     (case cached_client w of
        Some c \<Rightarrow> w
      | None \<Rightarrow> w\<lparr>clients := clients w @ [client_for self w],
                  attrs := (attrs w)(ClassObj := (attrs w ClassObj)(cache_attr \<mapsto> client_for self w))\<rparr>)"


subsection \<open>The rounds of the loop\<close>

text \<open>
  A call of \<open>generate\<close> that starts in the world \<open>w\<close> draws its candidates from the random
  source one after the other, \<open>ndigits\<close> numbers each. \<open>candidate_id self w k\<close> is the
  \<open>short_id\<close> of round \<open>k\<close> (counted from 0): what \<open>generate_random\<close> returns once the
  \<open>k\<close> earlier candidates have been drawn. \<open>candidate\<close> is the key of that round and
  \<open>short_url\<close> the url returned for it.
\<close>

definition ndigits :: "ShortUrl \<Rightarrow> world \<Rightarrow> nat" where
  "ndigits self w = nat (random_digits (settings_of w self))"

definition candidate_id :: "ShortUrl \<Rightarrow> world \<Rightarrow> nat \<Rightarrow> string" where
  "candidate_id self w k =
     fst (generate_random self (w\<lparr>draws := draws w + k * ndigits self w\<rparr>))"

definition candidate :: "ShortUrl \<Rightarrow> world \<Rightarrow> nat \<Rightarrow> string" where
  "candidate self w k = format2 (prefix (settings_of w self)) (candidate_id self w k)"

definition short_url :: "ShortUrl \<Rightarrow> world \<Rightarrow> nat \<Rightarrow> string" where
  "short_url self w n = format2 (cloudfront_distro (settings_of w self)) (candidate self w n)"

text \<open>
  The probe of round \<open>k\<close> is the request number \<open>length (requests w) + k\<close> of the process.
  \<open>probe_response\<close> is what the service answers to it. A probe behaviour
  is a condition on these answers, that is on the service and the random source, not on
  the code: the metadata fetch succeeds ("exists"), or it fails with the code 404 or 403
  ("absent").
\<close>

definition probe_request :: "ShortUrl \<Rightarrow> world \<Rightarrow> nat \<Rightarrow> request" where
  "probe_request self w k = HeadObject (bucket (settings_of w self)) (candidate self w k)"

definition probe_response :: "ShortUrl \<Rightarrow> world \<Rightarrow> nat \<Rightarrow> exc option" where
  "probe_response self w k =
     respond w (length (requests w) + k) (client_for self w) (probe_request self w k)"

definition reports_exists :: "ShortUrl \<Rightarrow> world \<Rightarrow> nat \<Rightarrow> bool" where
  "reports_exists self w k = (probe_response self w k = None)"

definition reports_absent :: "ShortUrl \<Rightarrow> world \<Rightarrow> nat \<Rightarrow> bool" where
  "reports_absent self w k =
     (probe_response self w k = Some (ClientError ''404'') \<or>
      probe_response self w k = Some (ClientError ''403''))"

definition probe_requests :: "ShortUrl \<Rightarrow> world \<Rightarrow> nat \<Rightarrow> (s3_client \<times> request) list" where
  "probe_requests self w n = map (\<lambda>k. (client_for self w, probe_request self w k)) [0..<n]"

text \<open>
  \<open>retry self w\<close> is the world after one round of the loop: the candidate is drawn, the
  client is there, the probe is sent. \<open>written\<close> is the world after \<open>n\<close> collisions, the
  probe of candidate \<open>n\<close> and the write of its key; \<open>write_response\<close> is what the service
  answers to that write.
\<close>

definition retry :: "ShortUrl \<Rightarrow> world \<Rightarrow> world" where
  "retry self w =
     (with_client self w)\<lparr>draws := draws w + ndigits self w,
        requests := requests w @ [(client_for self w, probe_request self w 0)]\<rparr>"

definition write_request :: "ShortUrl \<Rightarrow> world \<Rightarrow> string \<Rightarrow> string \<Rightarrow> s3_client \<times> request" where
  "write_request self w key native_url =
     (client_for self w, PutObject (upload_kwargs self key native_url w))"

definition write_response :: "ShortUrl \<Rightarrow> world \<Rightarrow> nat \<Rightarrow> string \<Rightarrow> exc option" where
  "write_response self w n native_url =
     respond w (length (requests w) + Suc n) (client_for self w)
       (PutObject (upload_kwargs self (candidate self w n) native_url w))"

definition written :: "ShortUrl \<Rightarrow> world \<Rightarrow> nat \<Rightarrow> string \<Rightarrow> world" where
  "written self w n native_url =
     ((retry self ^^ Suc n) w)\<lparr>requests := requests w @ probe_requests self w (Suc n) @
        [write_request self w (candidate self w n) native_url]\<rparr>"

subsection \<open>Requests\<close>

text \<open>
  \<open>sent w w'\<close> are the requests sent between the worlds \<open>w\<close> and \<open>w'\<close>. A probe is a
  \<open>head_object\<close> request, a write a \<open>put_object\<close> request. \<open>probe_reply\<close> is what the service
  answers to a metadata fetch for \<open>key\<close> sent by \<open>self\<close> in the world \<open>w\<close>.
\<close>

definition sent :: "world \<Rightarrow> world \<Rightarrow> (s3_client \<times> request) list" where
  "sent w w' = drop (length (requests w)) (requests w')"

definition is_probe :: "s3_client \<times> request \<Rightarrow> bool" where
  "is_probe cr = (case snd cr of HeadObject b k \<Rightarrow> True | PutObject kw \<Rightarrow> False)"

definition is_write :: "s3_client \<times> request \<Rightarrow> bool" where
  "is_write cr = (case snd cr of HeadObject b k \<Rightarrow> False | PutObject kw \<Rightarrow> True)"

definition probe_reply :: "ShortUrl \<Rightarrow> string \<Rightarrow> world \<Rightarrow> exc option" where
  "probe_reply self key w =
     respond w (length (requests w)) (client_for self w)
       (HeadObject (bucket (settings_of w self)) key)"

subsection \<open>Sequences of calls\<close>






subsection \<open>Concrete inputs\<close>

text \<open>
  The configuration of the repository's test, with a region and a bucket, and variants
  of it: a prefix with a slash, a negative and a zero \<open>random_digits\<close>, and the settings of
  a second instance.
\<close>

definition example_settings :: Settings where
  "example_settings =
     \<lparr>region = ''us-east-1'', bucket = ''b'', prefix = ''a'', cloudfront_distro = ''shor.ty'',
      random_digits = 4, boto_signature_version = ''s3v4''\<rparr>"

definition slash_settings :: Settings where
  "slash_settings = example_settings\<lparr>prefix := ''a/b''\<rparr>"

definition no_digits_settings :: Settings where
  "no_digits_settings = example_settings\<lparr>random_digits := - 3\<rparr>"

definition zero_digits_settings :: Settings where
  "zero_digits_settings = example_settings\<lparr>random_digits := 0\<rparr>"


text \<open>
  Services: one that has no object (and accepts every write), one whose first \<open>m\<close>
  requests find an object and whose later probes answer 403, one whose first \<open>m\<close>
  requests succeed and whose later ones raise \<open>e\<close>, and one that finds every object.
\<close>

definition service_absent :: "nat \<Rightarrow> s3_client \<Rightarrow> request \<Rightarrow> exc option" where
  "service_absent n c r = (case r of HeadObject b k \<Rightarrow> Some (ClientError ''404'') | PutObject kw \<Rightarrow> None)"

definition service_collide :: "nat \<Rightarrow> nat \<Rightarrow> s3_client \<Rightarrow> request \<Rightarrow> exc option" where
  "service_collide m n c r =
     (case r of
        HeadObject b k \<Rightarrow> (if n < m then None else Some (ClientError ''403''))
      | PutObject kw \<Rightarrow> None)"

definition service_fail :: "nat \<Rightarrow> exc \<Rightarrow> nat \<Rightarrow> s3_client \<Rightarrow> request \<Rightarrow> exc option" where
  "service_fail m e n c r = (if n < m then None else Some e)"

definition service_exists :: "nat \<Rightarrow> s3_client \<Rightarrow> request \<Rightarrow> exc option" where
  "service_exists n c r = None"

text \<open>
  A fresh process in which every instance has the settings \<open>s\<close>; its random source
  yields 3, 10, 17, 24, ..., which select the symbols \<open>d\<close>, \<open>k\<close>, \<open>r\<close>, \<open>y\<close>, ... of the
  alphabet. In \<open>two_instances\<close> the instance 1 has been constructed with other settings.
\<close>

definition example_world :: "Settings \<Rightarrow> (nat \<Rightarrow> s3_client \<Rightarrow> request \<Rightarrow> exc option) \<Rightarrow> world" where
  "example_world s service =
     \<lparr>entropy = (\<lambda>i. 7 * i + 3), draws = 0, settings_of = (\<lambda>self. s),
      attrs = (\<lambda>obj name. None), clients = [], respond = service, requests = []\<rparr>"


definition us_client :: s3_client where
  "us_client = \<lparr>region_name = ''us-east-1'', signature_version = ''s3v4''\<rparr>"


section \<open>Properties\<close>

subsection \<open>The client, the random string and one round of the loop\<close>

lemma s3_client_eq: "s3_client self w = (Inr (client_for self w), with_client self w)"
  by (cases "attrs w ClassObj ''_cache_s3_client''")
     (simp_all add: s3_client_def class_cached_property_def make_cached_property_def
       hasattr_def lookup_attr_def getattr_def setattr_def s3_client_func_def boto3_client_def
       client_for_def with_client_def cached_client_def cache_attr_def Let_def)

lemma join_choices_snd: "snd (join_choices n w) = w\<lparr>draws := draws w + n\<rparr>"
  by (induction n arbitrary: w) (simp_all add: choice_def case_prod_beta)

lemma join_choices_length: "length (fst (join_choices n w)) = n"
  by (induction n arbitrary: w) (simp_all add: choice_def case_prod_beta)

lemma alphabet_length: "length alphabet = 36"
  by (simp add: alphabet_def ascii_lowercase_def digits_def)

lemma join_choices_set: "set (fst (join_choices n w)) \<subseteq> set alphabet"
  by (induction n arbitrary: w) (auto simp add: choice_def alphabet_length case_prod_beta)

lemma join_choices_cong:
  "entropy w = entropy w' \<Longrightarrow> draws w = draws w' \<Longrightarrow>
   fst (join_choices n w) = fst (join_choices n w')"
proof (induction n arbitrary: w w')
  case 0
  then show ?case by simp
next
  case (Suc n)
  have "fst (join_choices n (w\<lparr>draws := Suc (draws w)\<rparr>)) =
        fst (join_choices n (w'\<lparr>draws := Suc (draws w')\<rparr>))"
    by (rule Suc.IH) (simp_all add: Suc.prems)
  then show ?case
    using Suc.prems by (simp add: choice_def case_prod_beta)
qed


lemma with_client_fields [simp]:
  "entropy (with_client self w) = entropy w"
  "draws (with_client self w) = draws w"
  "settings_of (with_client self w) = settings_of w"
  "respond (with_client self w) = respond w"
  "requests (with_client self w) = requests w"
  "cached_client (with_client self w) = Some (client_for self w)"
  by (simp_all add: with_client_def client_for_def cached_client_def split: option.splits)

lemma with_client_draws_update:
  "with_client self (w\<lparr>draws := d\<rparr>) = (with_client self w)\<lparr>draws := d\<rparr>"
  by (simp add: with_client_def client_for_def cached_client_def split: option.splits)

lemma client_for_draws_update [simp]:
  "client_for self (w\<lparr>draws := d\<rparr>) = client_for self w"
  by (simp add: client_for_def cached_client_def split: option.splits)

lemma retry_fields [simp]:
  "entropy (retry self w) = entropy w"
  "draws (retry self w) = draws w + ndigits self w"
  "settings_of (retry self w) = settings_of w"
  "respond (retry self w) = respond w"
  "requests (retry self w) = requests w @ [(client_for self w, probe_request self w 0)]"
  by (simp_all add: retry_def)

lemma cached_client_retry [simp]: "cached_client (retry self w) = Some (client_for self w)"
proof -
  have "cached_client (retry self w) = cached_client (with_client self w)"
    by (simp add: retry_def cached_client_def)
  then show ?thesis by simp
qed

lemma client_for_retry [simp]: "client_for self' (retry self w) = client_for self w"
  by (simp add: client_for_def [of self'])

lemma ndigits_retry [simp]: "ndigits self' (retry self w) = ndigits self' w"
  by (simp add: ndigits_def)

lemma candidate_0:
  "candidate self w 0 = format2 (prefix (settings_of w self)) (fst (generate_random self w))"
  by (simp add: candidate_def candidate_id_def)

lemma candidate_retry [simp]: "candidate self (retry self w) k = candidate self w (Suc k)"
proof -
  have "fst (join_choices (ndigits self w)
          ((retry self w)\<lparr>draws := draws w + ndigits self w + k * ndigits self w\<rparr>)) =
        fst (join_choices (ndigits self w)
          (w\<lparr>draws := draws w + (ndigits self w + k * ndigits self w)\<rparr>))"
    by (rule join_choices_cong) simp_all
  then show ?thesis
    by (simp add: candidate_def candidate_id_def generate_random_def ndigits_def)
qed

lemma probe_request_retry [simp]:
  "probe_request self (retry self w) k = probe_request self w (Suc k)"
  by (simp add: probe_request_def)

lemma probe_response_retry [simp]:
  "probe_response self (retry self w) k = probe_response self w (Suc k)"
  by (simp add: probe_response_def)

lemma except_ClientError_check: "except_ClientError e = Inr b \<Longrightarrow> \<not> b"
  by (cases e) (auto split: if_splits)

lemma exists_s3_key_eq:
  "exists_s3_key self key w =
     ((case respond w (length (requests w)) (client_for self w)
              (HeadObject (bucket (settings_of w self)) key) of
         None \<Rightarrow> Inr True
       | Some e \<Rightarrow> except_ClientError e),
      (with_client self w)\<lparr>requests := requests w @
         [(client_for self w, HeadObject (bucket (settings_of w self)) key)]\<rparr>)"
  by (simp add: exists_s3_key_def s3_client_eq head_object_def send_def split: option.splits)

lemma generate_random_eq:
  "generate_random self w = (fst (generate_random self w), w\<lparr>draws := draws w + ndigits self w\<rparr>)"
  using join_choices_snd [of "ndigits self w" w]
  by (simp add: generate_random_def ndigits_def prod_eq_iff)

lemma loop_unfold:
  "generate_loop self w =
     (case probe_response self w 0 of
        None \<Rightarrow> generate_loop self (retry self w)
      | Some e \<Rightarrow>
          (case except_ClientError e of
             Inl e' \<Rightarrow> Some (Inl e', retry self w)
           | Inr b \<Rightarrow> Some (Inr (candidate self w 0), retry self w)))"
proof -
  let ?w1 = "w\<lparr>draws := draws w + ndigits self w\<rparr>"
  let ?key = "candidate self w 0"
  have gr: "generate_random self w = (fst (generate_random self w), ?w1)"
    by (rule generate_random_eq)
  have w2: "(with_client self ?w1)\<lparr>requests := requests ?w1 @
         [(client_for self ?w1, HeadObject (bucket (settings_of ?w1 self)) ?key)]\<rparr> = retry self w"
    by (simp add: retry_def with_client_draws_update probe_request_def)
  have ex: "exists_s3_key self ?key ?w1 =
     ((case probe_response self w 0 of None \<Rightarrow> Inr True | Some e \<Rightarrow> except_ClientError e),
      retry self w)"
    unfolding exists_s3_key_eq w2 by (simp add: probe_response_def probe_request_def)
  show ?thesis
    apply (subst generate_loop.simps)
    apply (subst gr)
    apply (simp add: candidate_0 [symmetric] ex del: candidate_retry
        split: option.splits sum.splits)
    apply (auto dest: except_ClientError_check)
    done
qed

subsection \<open>Several rounds\<close>

lemma retry_funpow_fields [simp]:
  "entropy ((retry self ^^ n) w) = entropy w"
  "draws ((retry self ^^ n) w) = draws w + n * ndigits self w"
  "settings_of ((retry self ^^ n) w) = settings_of w"
  "respond ((retry self ^^ n) w) = respond w"
  "ndigits self' ((retry self ^^ n) w) = ndigits self' w"
  by (induction n arbitrary: w) (simp_all add: funpow_swap1)

lemma client_for_retry_funpow [simp]:
  "client_for self ((retry self ^^ n) w) = client_for self w"
  by (induction n arbitrary: w) (simp_all add: funpow_swap1)

lemma cached_client_retry_funpow [simp]:
  "cached_client ((retry self ^^ Suc n) w) = Some (client_for self w)"
  by simp

lemma candidate_retry_funpow [simp]:
  "candidate self ((retry self ^^ n) w) k = candidate self w (n + k)"
  by (induction n arbitrary: w k) (simp_all add: funpow_swap1)

lemma probe_request_retry_funpow [simp]:
  "probe_request self ((retry self ^^ n) w) k = probe_request self w (n + k)"
  by (induction n arbitrary: w k) (simp_all add: funpow_swap1)

lemma probe_response_retry_funpow [simp]:
  "probe_response self ((retry self ^^ n) w) k = probe_response self w (n + k)"
  by (induction n arbitrary: w k) (simp_all add: funpow_swap1)

lemma requests_retry_funpow [simp]:
  "requests ((retry self ^^ n) w) = requests w @ probe_requests self w n"
  by (induction n) (simp_all add: probe_requests_def)

lemma length_probe_requests [simp]: "length (probe_requests self w n) = n"
  by (simp add: probe_requests_def)

lemma loop_skip:
  "\<forall>k<n. probe_response self w k = None \<Longrightarrow>
   generate_loop self w = generate_loop self ((retry self ^^ n) w)"
proof (induction n)
  case 0
  then show ?case by simp
next
  case (Suc n)
  have "generate_loop self w = generate_loop self ((retry self ^^ n) w)"
    using Suc by simp
  also have "\<dots> = generate_loop self (retry self ((retry self ^^ n) w))"
    using Suc.prems by (subst loop_unfold) simp
  finally show ?case by simp
qed

lemma loop_stop:
  assumes "\<forall>k<n. probe_response self w k = None" and "probe_response self w n = Some e"
  shows "generate_loop self w =
     Some (case except_ClientError e of
             Inl e' \<Rightarrow> Inl e'
           | Inr b \<Rightarrow> Inr (candidate self w n), (retry self ^^ Suc n) w)"
proof -
  have "generate_loop self w = generate_loop self ((retry self ^^ n) w)"
    using assms(1) by (rule loop_skip)
  also have "\<dots> = Some (case except_ClientError e of
             Inl e' \<Rightarrow> Inl e'
           | Inr b \<Rightarrow> Inr (candidate self w n), (retry self ^^ Suc n) w)"
    using assms(2) by (subst loop_unfold) (simp split: sum.splits)
  finally show ?thesis .
qed

lemmas generate_loop_induct = generate_loop.raw_induct [rotated 1, consumes 1, case_names round]

lemma loop_result:
  "generate_loop self w = Some y \<Longrightarrow>
   \<exists>n e. (\<forall>k<n. probe_response self w k = None) \<and> probe_response self w n = Some e"
proof (induction self w y rule: generate_loop_induct)
  case (round gl self w y)
  show ?case
  proof (cases "probe_response self w 0")
    case None
    have ex: "exists_s3_key self (candidate self w 0) (w\<lparr>draws := draws w + ndigits self w\<rparr>) =
      (Inr True, retry self w)"
      using None
      by (simp add: exists_s3_key_eq probe_response_def probe_request_def retry_def
          with_client_draws_update)
    have "gl self (retry self w) = Some y"
      using round.hyps
      by (subst (asm) generate_random_eq) (simp add: candidate_0 [symmetric] ex del: candidate_retry)
    then obtain n e where n: "\<forall>k<n. probe_response self (retry self w) k = None"
      "probe_response self (retry self w) n = Some e"
      using round.IH by blast
    have "\<forall>k<Suc n. probe_response self w k = None"
    proof (intro allI impI)
      fix k assume "k < Suc n"
      then show "probe_response self w k = None"
        using None n(1) by (cases k) simp_all
    qed
    moreover have "probe_response self w (Suc n) = Some e"
      using n(2) by simp
    ultimately show ?thesis by blast
  next
    case (Some e)
    then show ?thesis by (intro exI [of _ 0]) simp
  qed
qed

lemma loop_forever:
  "\<forall>k. probe_response self w k = None \<Longrightarrow> generate_loop self w = None"
proof (rule ccontr)
  assume all: "\<forall>k. probe_response self w k = None" and "generate_loop self w \<noteq> None"
  then obtain y where "generate_loop self w = Some y" by blast
  from loop_result [OF this] all show False by auto
qed

subsection \<open>The write and the result of generate\<close>

lemma with_client_cached: "cached_client w = Some c \<Longrightarrow> with_client self w = w"
  by (simp add: with_client_def)


lemma upload_kwargs_cong:
  "settings_of w' = settings_of w \<Longrightarrow>
   upload_kwargs self key native_url w' = upload_kwargs self key native_url w"
  by (simp add: upload_kwargs_def)

lemma upload_object_eq:
  "upload_object self key native_url w =
     (respond w (length (requests w)) (client_for self w)
        (PutObject (upload_kwargs self key native_url w)),
      (with_client self w)\<lparr>requests := requests w @ [write_request self w key native_url]\<rparr>)"
  by (simp add: upload_object_def s3_client_eq put_object_def send_def write_request_def Let_def)

lemma upload_after_rounds:
  "upload_object self (candidate self w n) native_url ((retry self ^^ Suc n) w) =
     (write_response self w n native_url, written self w n native_url)"
proof -
  let ?w1 = "(retry self ^^ Suc n) w"
  have c: "cached_client ?w1 = Some (client_for self w)"
    by (rule cached_client_retry_funpow)
  have wc: "with_client self ?w1 = ?w1"
    using c by (rule with_client_cached)
  have cf: "client_for self ?w1 = client_for self w"
    by (rule client_for_retry_funpow)
  have kw: "upload_kwargs self (candidate self w n) native_url ?w1 =
            upload_kwargs self (candidate self w n) native_url w"
    by (rule upload_kwargs_cong) (rule retry_funpow_fields)
  have rq: "requests ?w1 = requests w @ probe_requests self w (Suc n)"
    by (rule requests_retry_funpow)
  show ?thesis
    unfolding upload_object_eq wc write_request_def cf kw rq
    by (simp add: write_response_def written_def write_request_def)
qed

lemma written_fields [simp]:
  "entropy (written self w n native_url) = entropy w"
  "draws (written self w n native_url) = draws w + Suc n * ndigits self w"
  "settings_of (written self w n native_url) = settings_of w"
  "respond (written self w n native_url) = respond w"
  "requests (written self w n native_url) = requests w @ probe_requests self w (Suc n) @
        [write_request self w (candidate self w n) native_url]"
  unfolding written_def by (simp_all del: funpow.simps)

lemma except_ClientError_absent:
  "except_ClientError e = Inr b \<longleftrightarrow> \<not> b \<and> (e = ClientError ''404'' \<or> e = ClientError ''403'')"
  by (cases e) auto

lemma generate_absent:
  assumes "\<forall>k<n. probe_response self w k = None"
    and "probe_response self w n = Some e" and "except_ClientError e = Inr b"
  shows "generate self native_url w =
     Some (case write_response self w n native_url of
             Some e' \<Rightarrow> Inl e'
           | None \<Rightarrow> Inr (short_url self w n), written self w n native_url)"
proof -
  have "generate_loop self w = Some (Inr (candidate self w n), (retry self ^^ Suc n) w)"
    using loop_stop [OF assms(1,2)] assms(3) by simp
  then show ?thesis
    unfolding generate_def
    by (simp add: upload_after_rounds short_url_def del: funpow.simps split: option.splits)
qed

lemma generate_raise:
  assumes "\<forall>k<n. probe_response self w k = None"
    and "probe_response self w n = Some e" and "except_ClientError e = Inl e'"
  shows "generate self native_url w = Some (Inl e', (retry self ^^ Suc n) w)"
proof -
  have "generate_loop self w = Some (Inl e', (retry self ^^ Suc n) w)"
    using loop_stop [OF assms(1,2)] assms(3) by simp
  then show ?thesis
    unfolding generate_def by simp
qed

lemma generate_forever:
  "\<forall>k. probe_response self w k = None \<Longrightarrow> generate self native_url w = None"
  by (simp add: generate_def loop_forever)

lemma generate_result:
  assumes "generate self native_url w = Some y"
  shows "\<exists>n e. (\<forall>k<n. probe_response self w k = None) \<and> probe_response self w n = Some e \<and>
     (case except_ClientError e of
        Inl e' \<Rightarrow> y = (Inl e', (retry self ^^ Suc n) w)
      | Inr b \<Rightarrow> y = (case write_response self w n native_url of
             Some e' \<Rightarrow> Inl e'
           | None \<Rightarrow> Inr (short_url self w n), written self w n native_url))"
proof -
  from assms obtain z where "generate_loop self w = Some z"
    by (auto simp: generate_def split: option.splits)
  from loop_result [OF this] obtain n e where
    n: "\<forall>k<n. probe_response self w k = None" "probe_response self w n = Some e"
    by blast
  show ?thesis
  proof (cases "except_ClientError e")
    case (Inl e')
    from generate_raise [OF n Inl] assms n show ?thesis
      by (intro exI [of _ n] exI [of _ e]) (simp add: Inl)
  next
    case (Inr b)
    from generate_absent [OF n Inr] assms n show ?thesis
      by (intro exI [of _ n] exI [of _ e]) (simp add: Inr)
  qed
qed

subsection \<open>The concrete worlds\<close>

lemma example_world_fields [simp]:
  "entropy (example_world s service) = (\<lambda>i. 7 * i + 3)"
  "draws (example_world s service) = 0"
  "settings_of (example_world s service) = (\<lambda>self. s)"
  "clients (example_world s service) = []"
  "respond (example_world s service) = service"
  "requests (example_world s service) = []"
  "cached_client (example_world s service) = None"
  by (simp_all add: example_world_def cached_client_def)

lemma probe_response_example [simp]:
  "probe_response self (example_world s service) k =
     service k (client_for self (example_world s service))
       (probe_request self (example_world s service) k)"
  by (simp add: probe_response_def)

lemma probe_request_HeadObject:
  "probe_request self w k = HeadObject (bucket (settings_of w self)) (candidate self w k)"
  by (simp add: probe_request_def)

subsection \<open>Probes and writes\<close>

text \<open>
  C1. If the probe reports "exists" for the first \<open>N\<close> candidate keys and "absent" for the
  next one, \<open>generate\<close> returns after sending exactly \<open>N + 1\<close> probes followed by exactly
  one write, and nothing else. In particular, with a probe that always reports "absent"
  it sends one probe and one write.
\<close>

theorem generate_probes_then_one_write:
  "((\<forall>k<N. reports_exists self w k) \<and> reports_absent self w N \<longrightarrow>
      (\<exists>r w'. generate self native_url w = Some (r, w') \<and>
         sent w w' = probe_requests self w (Suc N) @
                     [write_request self w (candidate self w N) native_url] \<and>
         length (filter is_probe (sent w w')) = N + 1 \<and>
         length (filter is_write (sent w w')) = 1)) \<and>
   ((\<forall>k. reports_absent self w k) \<longrightarrow>
      (\<exists>r w'. generate self native_url w = Some (r, w') \<and>
         sent w w' = [(client_for self w, probe_request self w 0),
                      write_request self w (candidate self w 0) native_url]))"
proof -
  have probes: "filter is_probe (probe_requests self w n) = probe_requests self w n"
    "filter is_write (probe_requests self w n) = []" for n
    by (simp_all add: probe_requests_def probe_request_def is_probe_def is_write_def
        filter_map comp_def)
  have wreq: "is_write (write_request self w key native_url)"
    "\<not> is_probe (write_request self w key native_url)" for key
    by (simp_all add: write_request_def is_probe_def is_write_def)
  have main: "\<exists>r w'. generate self native_url w = Some (r, w') \<and>
         sent w w' = probe_requests self w (Suc n) @
                     [write_request self w (candidate self w n) native_url]"
    if ex: "\<forall>k<n. reports_exists self w k" and ab: "reports_absent self w n" for n
  proof -
    from ab obtain e where e: "probe_response self w n = Some e" "except_ClientError e = Inr False"
      by (auto simp: reports_absent_def)
    from ex have "\<forall>k<n. probe_response self w k = None"
      by (simp add: reports_exists_def)
    from generate_absent [OF this e] show ?thesis
      by (simp add: sent_def del: funpow.simps)
  qed
  show ?thesis
  proof (intro conjI impI)
    assume "(\<forall>k<N. reports_exists self w k) \<and> reports_absent self w N"
    then obtain r w' where g: "generate self native_url w = Some (r, w')"
      "sent w w' = probe_requests self w (Suc N) @
                     [write_request self w (candidate self w N) native_url]"
      using main [of N] by blast
    have "length (filter is_probe (sent w w')) = N + 1"
      unfolding g(2) filter_append probes by (simp add: wreq)
    moreover have "length (filter is_write (sent w w')) = 1"
      unfolding g(2) filter_append probes by (simp add: wreq)
    ultimately show "\<exists>r w'. generate self native_url w = Some (r, w') \<and>
         sent w w' = probe_requests self w (Suc N) @
                     [write_request self w (candidate self w N) native_url] \<and>
         length (filter is_probe (sent w w')) = N + 1 \<and>
         length (filter is_write (sent w w')) = 1"
      using g by blast
  next
    assume "\<forall>k. reports_absent self w k"
    then have "reports_absent self w 0" by blast
    with main [of 0] show "\<exists>r w'. generate self native_url w = Some (r, w') \<and>
         sent w w' = [(client_for self w, probe_request self w 0),
                      write_request self w (candidate self w 0) native_url]"
      by (simp add: probe_requests_def)
  qed
qed

theorem generate_probes_then_one_write_witness:
  "reports_exists 0 (example_world example_settings (service_collide 2)) 0 \<and>
   reports_exists 0 (example_world example_settings (service_collide 2)) 1 \<and>
   reports_absent 0 (example_world example_settings (service_collide 2)) 2 \<and>
   (\<exists>r w'. generate 0 ''http://www.google.com'' (example_world example_settings (service_collide 2))
              = Some (r, w') \<and>
      sent (example_world example_settings (service_collide 2)) w' =
        [(us_client, HeadObject ''b'' ''a/dkry''),
         (us_client, HeadObject ''b'' ''a/5cjq''),
         (us_client, HeadObject ''b'' ''a/x4bi''),
         (us_client, PutObject \<lparr>Bucket = ''b'', Key = ''a/x4bi'', Body = [],
            WebsiteRedirectLocation = ''http://www.google.com'', ContentType = ''text/plain''\<rparr>)] \<and>
      length (filter is_probe (sent (example_world example_settings (service_collide 2)) w')) = 3 \<and>
      length (filter is_write (sent (example_world example_settings (service_collide 2)) w')) = 1) \<and>
   (\<forall>k. reports_absent 0 (example_world example_settings service_absent) k) \<and>
   (\<exists>r w'. generate 0 ''http://www.google.com'' (example_world example_settings service_absent)
              = Some (r, w') \<and>
      length (sent (example_world example_settings service_absent) w') = 2)"
proof -
  let ?w = "example_world example_settings (service_collide 2)"
  let ?v = "example_world example_settings service_absent"
  let ?url = "''http://www.google.com''"
  have h1: "\<forall>k<2. reports_exists 0 ?w k"
    by (simp add: reports_exists_def service_collide_def probe_request_HeadObject)
  have h2: "reports_absent 0 ?w 2"
    by (simp add: reports_absent_def service_collide_def probe_request_HeadObject)
  have h3: "\<forall>k. reports_absent 0 ?v k"
    by (simp add: reports_absent_def service_absent_def probe_request_HeadObject)
  have trace: "probe_requests 0 ?w 3 @ [write_request 0 ?w (candidate 0 ?w 2) ?url] =
    [(us_client, HeadObject ''b'' ''a/dkry''),
     (us_client, HeadObject ''b'' ''a/5cjq''),
     (us_client, HeadObject ''b'' ''a/x4bi''),
     (us_client, PutObject \<lparr>Bucket = ''b'', Key = ''a/x4bi'', Body = [],
        WebsiteRedirectLocation = ''http://www.google.com'', ContentType = ''text/plain''\<rparr>)]"
    by code_simp
  from generate_probes_then_one_write [of 2 0 ?w ?url] h1 h2
  obtain r w' where g: "generate 0 ?url ?w = Some (r, w')"
    "sent ?w w' = probe_requests 0 ?w (Suc 2) @ [write_request 0 ?w (candidate 0 ?w 2) ?url]"
    "length (filter is_probe (sent ?w w')) = 2 + 1" "length (filter is_write (sent ?w w')) = 1"
    by blast
  from g(2) trace have "sent ?w w' =
    [(us_client, HeadObject ''b'' ''a/dkry''),
     (us_client, HeadObject ''b'' ''a/5cjq''),
     (us_client, HeadObject ''b'' ''a/x4bi''),
     (us_client, PutObject \<lparr>Bucket = ''b'', Key = ''a/x4bi'', Body = [],
        WebsiteRedirectLocation = ''http://www.google.com'', ContentType = ''text/plain''\<rparr>)]"
    by (simp add: eval_nat_numeral)
  with g have c1: "\<exists>r w'. generate 0 ?url ?w = Some (r, w') \<and>
      sent ?w w' =
        [(us_client, HeadObject ''b'' ''a/dkry''),
         (us_client, HeadObject ''b'' ''a/5cjq''),
         (us_client, HeadObject ''b'' ''a/x4bi''),
         (us_client, PutObject \<lparr>Bucket = ''b'', Key = ''a/x4bi'', Body = [],
            WebsiteRedirectLocation = ''http://www.google.com'', ContentType = ''text/plain''\<rparr>)] \<and>
      length (filter is_probe (sent ?w w')) = 3 \<and> length (filter is_write (sent ?w w')) = 1"
    by (intro exI [of _ r] exI [of _ w']) simp
  from generate_probes_then_one_write [of 0 0 ?v ?url] h3
  have c2: "\<exists>r w'. generate 0 ?url ?v = Some (r, w') \<and> length (sent ?v w') = 2"
    by auto
  from h1 have "reports_exists 0 ?w 0" "reports_exists 0 ?w 1"
    by simp_all
  with h2 h3 c1 c2 show ?thesis by blast
qed

text \<open>
  C2. \<open>exists_s3_key\<close> returns \<open>True\<close> when the metadata fetch for the key succeeds,
  \<open>False\<close> when the service answers with error code 404 or 403, and raises any other error
  of the service as it is; so no other error is taken for "absent". In each case the
  fetch is the one request it sends.
\<close>

theorem exists_s3_key_outcomes:
  "(probe_reply self key w = None \<longrightarrow> fst (exists_s3_key self key w) = Inr True) \<and>
   (probe_reply self key w = Some (ClientError ''404'') \<longrightarrow>
      fst (exists_s3_key self key w) = Inr False) \<and>
   (probe_reply self key w = Some (ClientError ''403'') \<longrightarrow>
      fst (exists_s3_key self key w) = Inr False) \<and>
   (probe_reply self key w = Some e \<and> e \<noteq> ClientError ''404'' \<and> e \<noteq> ClientError ''403'' \<longrightarrow>
      fst (exists_s3_key self key w) = Inl e) \<and>
   (fst (exists_s3_key self key w) = Inr False \<longrightarrow>
      probe_reply self key w = Some (ClientError ''404'') \<or>
      probe_reply self key w = Some (ClientError ''403'')) \<and>
   sent w (snd (exists_s3_key self key w)) =
     [(client_for self w, HeadObject (bucket (settings_of w self)) key)]"
proof -
  have other: "except_ClientError e = Inl e"
    if "e \<noteq> ClientError ''404''" "e \<noteq> ClientError ''403''" for e
    using that by (cases e) auto
  have absent: "probe_reply self key w = Some (ClientError ''404'') \<or>
      probe_reply self key w = Some (ClientError ''403'')"
    if "fst (exists_s3_key self key w) = Inr False"
    using that
    by (auto simp: exists_s3_key_eq probe_reply_def except_ClientError_absent
        split: option.splits)
  show ?thesis
    using absent by (auto simp: exists_s3_key_eq probe_reply_def sent_def other)
qed

theorem exists_s3_key_outcomes_witness:
  "probe_reply 0 ''a/dkry'' (example_world example_settings service_exists) = None \<and>
   fst (exists_s3_key 0 ''a/dkry'' (example_world example_settings service_exists)) = Inr True \<and>
   probe_reply 0 ''a/dkry'' (example_world example_settings service_absent)
     = Some (ClientError ''404'') \<and>
   fst (exists_s3_key 0 ''a/dkry'' (example_world example_settings service_absent)) = Inr False \<and>
   probe_reply 0 ''a/dkry'' (example_world example_settings (service_collide 0))
     = Some (ClientError ''403'') \<and>
   fst (exists_s3_key 0 ''a/dkry'' (example_world example_settings (service_collide 0)))
     = Inr False \<and>
   probe_reply 0 ''a/dkry'' (example_world example_settings (service_fail 0 (ClientError ''500'')))
     = Some (ClientError ''500'') \<and>
   fst (exists_s3_key 0 ''a/dkry''
          (example_world example_settings (service_fail 0 (ClientError ''500''))))
     = Inl (ClientError ''500'') \<and>
   fst (exists_s3_key 0 ''a/dkry''
          (example_world example_settings (service_fail 0 (OtherException ''EndpointConnectionError''))))
     = Inl (OtherException ''EndpointConnectionError'')"
proof -
  have r1: "probe_reply 0 ''a/dkry'' (example_world example_settings service_exists) = None"
    by (simp add: probe_reply_def service_exists_def)
  have r2: "probe_reply 0 ''a/dkry'' (example_world example_settings service_absent)
     = Some (ClientError ''404'')"
    by (simp add: probe_reply_def service_absent_def)
  have r3: "probe_reply 0 ''a/dkry'' (example_world example_settings (service_collide 0))
     = Some (ClientError ''403'')"
    by (simp add: probe_reply_def service_collide_def)
  have r4: "probe_reply 0 ''a/dkry''
      (example_world example_settings (service_fail 0 (ClientError ''500'')))
     = Some (ClientError ''500'')"
    by (simp add: probe_reply_def service_fail_def)
  have r5: "probe_reply 0 ''a/dkry''
      (example_world example_settings (service_fail 0 (OtherException ''EndpointConnectionError'')))
     = Some (OtherException ''EndpointConnectionError'')"
    by (simp add: probe_reply_def service_fail_def)
  show ?thesis
    using r1 r2 r3 r4 r5
      exists_s3_key_outcomes [of 0 "''a/dkry''" "example_world example_settings service_exists"]
      exists_s3_key_outcomes [of 0 "''a/dkry''" "example_world example_settings service_absent"]
      exists_s3_key_outcomes [of 0 "''a/dkry''" "example_world example_settings (service_collide 0)"]
      exists_s3_key_outcomes [of 0 "''a/dkry''"
        "example_world example_settings (service_fail 0 (ClientError ''500''))" "ClientError ''500''"]
      exists_s3_key_outcomes [of 0 "''a/dkry''"
        "example_world example_settings (service_fail 0 (OtherException ''EndpointConnectionError''))"
        "OtherException ''EndpointConnectionError''"]
    by simp
qed

text \<open>
  C3. If the probe raises an error that is not taken for "absent" (after any number \<open>N\<close> of
  collisions), \<open>generate\<close> raises that same error and returns no short url; the only
  requests it has sent are the \<open>N + 1\<close> probes, so no write was attempted and nothing
  was stored.
\<close>

theorem generate_propagates_probe_error:
  "(\<forall>k<N. reports_exists self w k) \<and> probe_response self w N = Some e \<and>
   e \<noteq> ClientError ''404'' \<and> e \<noteq> ClientError ''403'' \<longrightarrow>
   (\<exists>w'. generate self native_url w = Some (Inl e, w') \<and>
      sent w w' = probe_requests self w (Suc N) \<and>
      filter is_write (sent w w') = [])"
proof (intro impI)
  assume a: "(\<forall>k<N. reports_exists self w k) \<and> probe_response self w N = Some e \<and>
   e \<noteq> ClientError ''404'' \<and> e \<noteq> ClientError ''403''"
  then have ex: "\<forall>k<N. probe_response self w k = None"
    by (simp add: reports_exists_def)
  have "except_ClientError e = Inl e"
    using a by (cases e) auto
  from generate_raise [OF ex _ this, of native_url] a
  have g: "generate self native_url w = Some (Inl e, (retry self ^^ Suc N) w)"
    by blast
  have s: "sent w ((retry self ^^ Suc N) w) = probe_requests self w (Suc N)"
    unfolding sent_def requests_retry_funpow by simp
  have "filter is_write (probe_requests self w (Suc N)) = []"
    by (simp add: probe_requests_def probe_request_def is_write_def filter_map comp_def)
  with g s show "\<exists>w'. generate self native_url w = Some (Inl e, w') \<and>
      sent w w' = probe_requests self w (Suc N) \<and> filter is_write (sent w w') = []"
    by (intro exI [of _ "(retry self ^^ Suc N) w"]) (simp del: funpow.simps)
qed

theorem generate_propagates_probe_error_witness:
  "reports_exists 0 (example_world example_settings (service_fail 1 (ClientError ''500''))) 0 \<and>
   probe_response 0 (example_world example_settings (service_fail 1 (ClientError ''500''))) 1
     = Some (ClientError ''500'') \<and>
   (\<exists>w'. generate 0 ''http://www.google.com''
            (example_world example_settings (service_fail 1 (ClientError ''500'')))
          = Some (Inl (ClientError ''500''), w') \<and>
      length (sent (example_world example_settings (service_fail 1 (ClientError ''500''))) w') = 2 \<and>
      filter is_write (sent (example_world example_settings (service_fail 1 (ClientError ''500''))) w')
        = [])"
proof -
  let ?w = "example_world example_settings (service_fail 1 (ClientError ''500''))"
  have h1: "reports_exists 0 ?w 0"
    by (simp add: reports_exists_def service_fail_def)
  have h2: "probe_response 0 ?w 1 = Some (ClientError ''500'')"
    by (simp add: service_fail_def)
  from h1 have h1': "\<forall>k<1. reports_exists 0 ?w k"
    by simp
  from generate_propagates_probe_error
    [of 1 0 ?w "ClientError ''500''" "''http://www.google.com''"] h1' h2
  have "\<exists>w'. generate 0 ''http://www.google.com'' ?w = Some (Inl (ClientError ''500''), w') \<and>
      length (sent ?w w') = 2 \<and> filter is_write (sent ?w w') = []"
    by auto
  with h1 h2 show ?thesis by blast
qed

lemma reports_absent_iff:
  "reports_absent self w k \<longleftrightarrow>
     (\<exists>e. probe_response self w k = Some e \<and> except_ClientError e = Inr False)"
  by (auto simp: reports_absent_def except_ClientError_absent)

text \<open>
  C4. The loop of \<open>generate\<close> has no bound on the number of rounds. Whatever \<open>N\<close> is, if the
  probe reports "exists" for the first \<open>N\<close> candidates and then "absent", the loop ends
  with the candidate \<open>N\<close>, \<open>generate\<close> goes on to the write and returns (the short url
  when the write succeeds). If the probe reports "exists" for every candidate,
  \<open>generate\<close> never returns. For a probe that only ever answers "exists" or "absent",
  \<open>generate\<close> returns exactly when some candidate is reported "absent".
\<close>

theorem generate_terminates_iff_absent:
  "((\<forall>k<N. reports_exists self w k) \<and> reports_absent self w N \<longrightarrow>
      generate_loop self w = Some (Inr (candidate self w N), (retry self ^^ Suc N) w) \<and>
      (\<exists>r w'. generate self native_url w = Some (r, w') \<and>
         is_write (last (sent w w')) \<and>
         (write_response self w N native_url = None \<longrightarrow> r = Inr (short_url self w N)))) \<and>
   ((\<forall>k. reports_exists self w k) \<longrightarrow> generate self native_url w = None) \<and>
   ((\<forall>k. reports_exists self w k \<or> reports_absent self w k) \<longrightarrow>
      (generate self native_url w \<noteq> None \<longleftrightarrow> (\<exists>n. reports_absent self w n)))"
proof (intro conjI impI)
  assume a: "(\<forall>k<N. reports_exists self w k) \<and> reports_absent self w N"
  then have ex: "\<forall>k<N. probe_response self w k = None"
    by (simp add: reports_exists_def)
  from a obtain e where e: "probe_response self w N = Some e" "except_ClientError e = Inr False"
    by (auto simp: reports_absent_iff)
  show "generate_loop self w = Some (Inr (candidate self w N), (retry self ^^ Suc N) w)"
    using loop_stop [OF ex e(1)] e(2) by simp
  have w: "is_write (last (sent w (written self w N native_url)))"
    by (simp add: sent_def is_write_def write_request_def)
  show "\<exists>r w'. generate self native_url w = Some (r, w') \<and>
         is_write (last (sent w w')) \<and>
         (write_response self w N native_url = None \<longrightarrow> r = Inr (short_url self w N))"
    unfolding generate_absent [OF ex e] using w by simp
next
  assume "\<forall>k. reports_exists self w k"
  then show "generate self native_url w = None"
    by (simp add: reports_exists_def generate_forever)
next
  assume total: "\<forall>k. reports_exists self w k \<or> reports_absent self w k"
  show "generate self native_url w \<noteq> None \<longleftrightarrow> (\<exists>n. reports_absent self w n)"
  proof
    assume "generate self native_url w \<noteq> None"
    then obtain y where "generate self native_url w = Some y" by blast
    from generate_result [OF this] obtain n e where "probe_response self w n = Some e"
      by blast
    then have "\<not> reports_exists self w n"
      by (simp add: reports_exists_def)
    with total show "\<exists>n. reports_absent self w n" by blast
  next
    assume "\<exists>n. reports_absent self w n"
    then obtain n where n: "reports_absent self w n"
      and least: "\<forall>k<n. \<not> reports_absent self w k"
      using exists_least_iff [of "reports_absent self w"] by blast
    have nex: "\<not> reports_exists self w k" if "reports_absent self w k" for k
      using that by (auto simp: reports_exists_def reports_absent_def)
    from least total have "\<forall>k<n. probe_response self w k = None"
      by (auto simp: reports_exists_def)
    moreover from n obtain e where "probe_response self w n = Some e"
      "except_ClientError e = Inr False"
      by (auto simp: reports_absent_iff)
    ultimately show "generate self native_url w \<noteq> None"
      using generate_absent [of n self w e False native_url] by simp
  qed
qed

theorem generate_terminates_iff_absent_witness:
  "reports_exists 0 (example_world example_settings (service_collide 3)) 0 \<and>
   reports_exists 0 (example_world example_settings (service_collide 3)) 1 \<and>
   reports_exists 0 (example_world example_settings (service_collide 3)) 2 \<and>
   reports_absent 0 (example_world example_settings (service_collide 3)) 3 \<and>
   write_response 0 (example_world example_settings (service_collide 3)) 3 ''http://www.google.com''
     = None \<and>
   (\<exists>w'. generate 0 ''http://www.google.com'' (example_world example_settings (service_collide 3))
      = Some (Inr (short_url 0 (example_world example_settings (service_collide 3)) 3), w')) \<and>
   (\<forall>k. reports_exists 0 (example_world example_settings service_exists) k) \<and>
   generate 0 ''http://www.google.com'' (example_world example_settings service_exists) = None"
proof -
  let ?w = "example_world example_settings (service_collide 3)"
  let ?v = "example_world example_settings service_exists"
  let ?url = "''http://www.google.com''"
  have h1: "\<forall>k<3. reports_exists 0 ?w k"
    by (simp add: reports_exists_def service_collide_def probe_request_HeadObject)
  have h2: "reports_absent 0 ?w 3"
    by (simp add: reports_absent_def service_collide_def probe_request_HeadObject)
  have h3: "write_response 0 ?w 3 ?url = None"
    by (simp add: write_response_def service_collide_def)
  have h4: "\<forall>k. reports_exists 0 ?v k"
    by (simp add: reports_exists_def service_exists_def)
  from generate_terminates_iff_absent [of 3 0 ?w ?url] h1 h2 h3
  have c1: "\<exists>w'. generate 0 ?url ?w = Some (Inr (short_url 0 ?w 3), w')"
    by auto
  from generate_terminates_iff_absent [of 0 0 ?v ?url] h4
  have c2: "generate 0 ?url ?v = None"
    by blast
  from h1 have "reports_exists 0 ?w 0" "reports_exists 0 ?w 1" "reports_exists 0 ?w 2"
    by simp_all
  with h2 h3 h4 c1 c2 show ?thesis by blast
qed

subsection \<open>The shape of the short url\<close>

lemma candidate_format: "candidate self w k = format2 (prefix (settings_of w self)) (candidate_id self w k)"
  by (simp add: candidate_def)

lemma length_candidate_id: "length (candidate_id self w k) = ndigits self w"
  by (simp add: candidate_id_def generate_random_def join_choices_length ndigits_def)

lemma set_candidate_id: "set (candidate_id self w k) \<subseteq> set alphabet"
  by (simp add: candidate_id_def generate_random_def join_choices_set)

lemma short_url_eq:
  "short_url self w k =
     cloudfront_distro (settings_of w self) @ ''/'' @ prefix (settings_of w self) @ ''/'' @
     candidate_id self w k"
  by (simp add: short_url_def candidate_format format2_def)

lemma generate_returns:
  assumes "generate self native_url w = Some (Inr r, w')"
  shows "\<exists>n. r = short_url self w n \<and> w' = written self w n native_url"
proof -
  from generate_result [OF assms] obtain n e where
    c: "case except_ClientError e of
        Inl e' \<Rightarrow> (Inr r, w') = (Inl e', (retry self ^^ Suc n) w)
      | Inr b \<Rightarrow> (Inr r, w') = (case write_response self w n native_url of
             Some e' \<Rightarrow> Inl e'
           | None \<Rightarrow> Inr (short_url self w n), written self w n native_url)"
    by blast
  then have "r = short_url self w n \<and> w' = written self w n native_url"
    by (auto split: sum.splits option.splits)
  then show ?thesis by blast
qed

lemma split_slash_not_Nil [simp]: "split_slash s \<noteq> []"
  by (induction s) (auto split: list.splits)

lemma split_slash_no_slash: "CHR ''/'' \<notin> set s \<Longrightarrow> split_slash s = [s]"
  by (induction s) auto

lemma split_slash_append: "split_slash (a @ CHR ''/'' # b) = split_slash a @ split_slash b"
proof (induction a)
  case Nil
  show ?case by simp
next
  case (Cons c a)
  show ?case
  proof (cases "c = CHR ''/''")
    case True
    with Cons show ?thesis by simp
  next
    case False
    obtain piece pieces where p: "split_slash a = piece # pieces"
      by (cases "split_slash a") simp_all
    with False Cons show ?thesis by simp
  qed
qed

lemma slash_not_in_alphabet: "CHR ''/'' \<notin> set alphabet"
  by (simp add: alphabet_def ascii_lowercase_def digits_def)

lemma split_slash_short_url:
  "split_slash (short_url self w k) =
     split_slash (cloudfront_distro (settings_of w self)) @
     split_slash (prefix (settings_of w self)) @ [candidate_id self w k]"
proof -
  have "CHR ''/'' \<notin> set (candidate_id self w k)"
    using set_candidate_id [of self w k] slash_not_in_alphabet by blast
  then have "split_slash (candidate_id self w k) = [candidate_id self w k]"
    by (rule split_slash_no_slash)
  then show ?thesis
    by (simp add: short_url_eq split_slash_append)
qed

lemma join_choices_nth:
  "i < n \<Longrightarrow>
   fst (join_choices n w) ! i = alphabet ! (entropy w (draws w + i) mod length alphabet)"
proof (induction n arbitrary: w i)
  case 0
  then show ?case by simp
next
  case (Suc n)
  show ?case
  proof (cases i)
    case 0
    then show ?thesis by (simp add: choice_def case_prod_beta)
  next
    case (Suc j)
    with Suc.prems have "j < n" by simp
    from Suc.IH [OF this, of "w\<lparr>draws := Suc (draws w)\<rparr>"] Suc show ?thesis
      by (simp add: choice_def case_prod_beta)
  qed
qed

lemma length_split_slash:
  "length (split_slash s) = Suc (length (filter (\<lambda>c. c = CHR ''/'') s))"
  by (induction s) (auto split: list.splits)

lemma one_piece_iff: "length (split_slash s) = Suc 0 \<longleftrightarrow> CHR ''/'' \<notin> set s"
  by (auto simp add: length_split_slash filter_empty_conv)

lemma absent_example: "reports_absent 0 (example_world s service_absent) k"
  by (simp add: reports_absent_def service_absent_def probe_request_HeadObject)

lemma write_example: "write_response 0 (example_world s service_absent) k url = None"
  by (simp add: write_response_def service_absent_def)

lemma generate_example:
  "generate 0 url (example_world s service_absent) =
     Some (Inr (short_url 0 (example_world s service_absent) 0),
           written 0 (example_world s service_absent) 0 url)"
proof -
  have "probe_response 0 (example_world s service_absent) 0 = Some (ClientError ''404'')"
    by (simp add: service_absent_def probe_request_HeadObject)
  from generate_absent [of 0 0 "example_world s service_absent" "ClientError ''404''" False url] this
  show ?thesis by (simp add: write_example)
qed

lemma short_url_example:
  "short_url 0 (example_world example_settings service_absent) 0 = ''shor.ty/a/dkry''"
  by code_simp

lemma short_url_slash_example:
  "short_url 0 (example_world slash_settings service_absent) 0 = ''shor.ty/a/b/dkry''"
  by code_simp

lemma short_url_no_digits_example:
  "short_url 0 (example_world no_digits_settings service_absent) 0 = ''shor.ty/a/''"
  by code_simp

lemma short_url_zero_digits_example:
  "short_url 0 (example_world zero_digits_settings service_absent) 0 = ''shor.ty/a/''"
  by code_simp

text \<open>
  C5. Whenever \<open>generate\<close> returns a short url, for a configuration whose \<open>random_digits\<close>
  is not negative, the url is \<open>cloudfront_distro + "/" + prefix + "/" + short_id\<close> with a
  \<open>short_id\<close> of exactly \<open>random_digits\<close> characters, so its length is
  \<open>len(cloudfront_distro) + 1 + len(prefix) + 1 + random_digits\<close>.
\<close>

theorem generate_length:
  "generate self native_url w = Some (Inr r, w') \<and> 0 \<le> random_digits (settings_of w self) \<longrightarrow>
   int (length r) =
     int (length (cloudfront_distro (settings_of w self))) + 1 +
     int (length (prefix (settings_of w self))) + 1 + random_digits (settings_of w self) \<and>
   (\<exists>short_id. int (length short_id) = random_digits (settings_of w self) \<and>
      r = cloudfront_distro (settings_of w self) @ ''/'' @ prefix (settings_of w self) @ ''/'' @
          short_id)"
proof (intro impI)
  assume a: "generate self native_url w = Some (Inr r, w') \<and>
    0 \<le> random_digits (settings_of w self)"
  then obtain n where r: "r = short_url self w n"
    using generate_returns by blast
  have len: "int (length (candidate_id self w n)) = random_digits (settings_of w self)"
    using a by (simp add: length_candidate_id ndigits_def)
  have "int (length r) =
     int (length (cloudfront_distro (settings_of w self))) + 1 +
     int (length (prefix (settings_of w self))) + 1 + random_digits (settings_of w self)"
    unfolding r short_url_eq using len by simp
  moreover have "\<exists>short_id. int (length short_id) = random_digits (settings_of w self) \<and>
      r = cloudfront_distro (settings_of w self) @ ''/'' @ prefix (settings_of w self) @ ''/'' @
          short_id"
    using len r short_url_eq by blast
  ultimately show "int (length r) =
     int (length (cloudfront_distro (settings_of w self))) + 1 +
     int (length (prefix (settings_of w self))) + 1 + random_digits (settings_of w self) \<and>
   (\<exists>short_id. int (length short_id) = random_digits (settings_of w self) \<and>
      r = cloudfront_distro (settings_of w self) @ ''/'' @ prefix (settings_of w self) @ ''/'' @
          short_id)"
    by blast
qed

theorem generate_length_witness:
  "generate 0 ''http://www.google.com'' (example_world example_settings service_absent) =
     Some (Inr ''shor.ty/a/dkry'',
           written 0 (example_world example_settings service_absent) 0 ''http://www.google.com'') \<and>
   0 \<le> random_digits (settings_of (example_world example_settings service_absent) 0) \<and>
   int (length ''shor.ty/a/dkry'') = 14 \<and>
   int (length (cloudfront_distro (settings_of (example_world example_settings service_absent) 0)))
     + 1 + int (length (prefix (settings_of (example_world example_settings service_absent) 0)))
     + 1 + random_digits (settings_of (example_world example_settings service_absent) 0) = 14"
proof -
  let ?w = "example_world example_settings service_absent"
  let ?url = "''http://www.google.com''"
  have g: "generate 0 ?url ?w = Some (Inr ''shor.ty/a/dkry'', written 0 ?w 0 ?url)"
    by (simp add: generate_example short_url_example)
  have d: "0 \<le> random_digits (settings_of ?w 0)"
    by (simp add: example_settings_def)
  from generate_length [of 0 ?url ?w "''shor.ty/a/dkry''" "written 0 ?w 0 ?url"] g d
  have "int (length ''shor.ty/a/dkry'') =
     int (length (cloudfront_distro (settings_of ?w 0))) + 1 +
     int (length (prefix (settings_of ?w 0))) + 1 + random_digits (settings_of ?w 0)"
    by blast
  with g d show ?thesis by simp
qed

text \<open>
  C7. For a positive \<open>random_digits\<close>, \<open>generate_random\<close> returns a string of exactly that
  many characters. Its \<open>i\<close>-th character is the symbol that the \<open>i\<close>-th draw of the random
  source selects from the alphabet, which is the 26 lowercase letters followed by the
  10 digits: 36 distinct symbols.
\<close>

theorem generate_random_alphabet:
  "0 < random_digits (settings_of w self) \<longrightarrow>
   int (length (fst (generate_random self w))) = random_digits (settings_of w self) \<and>
   set (fst (generate_random self w)) \<subseteq> set alphabet \<and>
   (\<forall>i<length (fst (generate_random self w)).
      fst (generate_random self w) ! i = alphabet ! (entropy w (draws w + i) mod 36)) \<and>
   alphabet = ''abcdefghijklmnopqrstuvwxyz0123456789'' \<and>
   length alphabet = 36 \<and> distinct alphabet"
proof (intro impI conjI)
  assume "0 < random_digits (settings_of w self)"
  then show "int (length (fst (generate_random self w))) = random_digits (settings_of w self)"
    by (simp add: generate_random_def join_choices_length)
  show "set (fst (generate_random self w)) \<subseteq> set alphabet"
    by (simp add: generate_random_def join_choices_set)
  show "\<forall>i<length (fst (generate_random self w)).
      fst (generate_random self w) ! i = alphabet ! (entropy w (draws w + i) mod 36)"
    using join_choices_nth [of _ "nat (random_digits (settings_of w self))" w]
    by (simp add: generate_random_def join_choices_length alphabet_length)
  show "alphabet = ''abcdefghijklmnopqrstuvwxyz0123456789''"
    by (simp add: alphabet_def ascii_lowercase_def digits_def)
  show "length alphabet = 36"
    by (rule alphabet_length)
  show "distinct alphabet"
    by (simp add: alphabet_def ascii_lowercase_def digits_def)
qed

theorem generate_random_alphabet_witness:
  "0 < random_digits (settings_of (example_world example_settings service_absent) 0) \<and>
   fst (generate_random 0 (example_world example_settings service_absent)) = ''dkry'' \<and>
   int (length (fst (generate_random 0 (example_world example_settings service_absent)))) = 4 \<and>
   set (fst (generate_random 0 (example_world example_settings service_absent))) \<subseteq> set alphabet"
proof -
  let ?w = "example_world example_settings service_absent"
  have d: "0 < random_digits (settings_of ?w 0)" "random_digits (settings_of ?w 0) = 4"
    by (simp_all add: example_settings_def)
  have v: "fst (generate_random 0 ?w) = ''dkry''"
    by code_simp
  from generate_random_alphabet [of ?w 0] d v show ?thesis
    by simp
qed

text \<open>
  C6, as the code has it. Whenever \<open>generate\<close> returns a short url, splitting it on "/"
  yields the pieces of \<open>cloudfront_distro\<close>, then the pieces of \<open>prefix\<close>, then the
  \<open>short_id\<close>, which has exactly \<open>random_digits\<close> characters (none when \<open>random_digits\<close> is
  negative), all of them from the alphabet \<open>[a-z0-9]\<close>. The pieces are the three strings
  \<open>cloudfront_distro\<close>, \<open>prefix\<close>, \<open>short_id\<close> when neither \<open>cloudfront_distro\<close> nor \<open>prefix\<close>
  contains a slash, and only then are there exactly 3 of them.
\<close>

theorem generate_split:
  "generate self native_url w = Some (Inr r, w') \<longrightarrow>
   (\<exists>short_id.
      split_slash r =
        split_slash (cloudfront_distro (settings_of w self)) @
        split_slash (prefix (settings_of w self)) @ [short_id] \<and>
      length short_id = nat (random_digits (settings_of w self)) \<and>
      (0 \<le> random_digits (settings_of w self) \<longrightarrow>
         int (length short_id) = random_digits (settings_of w self)) \<and>
      set short_id \<subseteq> set alphabet \<and>
      (CHR ''/'' \<notin> set (cloudfront_distro (settings_of w self)) \<and>
       CHR ''/'' \<notin> set (prefix (settings_of w self)) \<longrightarrow>
         split_slash r =
           [cloudfront_distro (settings_of w self), prefix (settings_of w self), short_id])) \<and>
   (length (split_slash r) = 3 \<longleftrightarrow>
      CHR ''/'' \<notin> set (cloudfront_distro (settings_of w self)) \<and>
      CHR ''/'' \<notin> set (prefix (settings_of w self)))"
proof (intro impI)
  let ?d = "cloudfront_distro (settings_of w self)"
  let ?p = "prefix (settings_of w self)"
  assume "generate self native_url w = Some (Inr r, w')"
  then obtain n where r: "r = short_url self w n"
    using generate_returns by blast
  let ?id = "candidate_id self w n"
  have s: "split_slash r = split_slash ?d @ split_slash ?p @ [?id]"
    unfolding r by (rule split_slash_short_url)
  have l: "length ?id = nat (random_digits (settings_of w self))"
    by (simp add: length_candidate_id ndigits_def)
  have a: "set ?id \<subseteq> set alphabet"
    by (rule set_candidate_id)
  have three: "split_slash r = [?d, ?p, ?id]"
    if "CHR ''/'' \<notin> set ?d \<and> CHR ''/'' \<notin> set ?p"
    using that s by (simp add: split_slash_no_slash)
  have "length (split_slash ?d) \<ge> 1" "length (split_slash ?p) \<ge> 1"
    by (simp_all add: length_split_slash)
  then have count: "length (split_slash r) = 3 \<longleftrightarrow>
      length (split_slash ?d) = 1 \<and> length (split_slash ?p) = 1"
    unfolding s by auto
  have "\<exists>short_id.
      split_slash r = split_slash ?d @ split_slash ?p @ [short_id] \<and>
      length short_id = nat (random_digits (settings_of w self)) \<and>
      (0 \<le> random_digits (settings_of w self) \<longrightarrow>
         int (length short_id) = random_digits (settings_of w self)) \<and>
      set short_id \<subseteq> set alphabet \<and>
      (CHR ''/'' \<notin> set ?d \<and> CHR ''/'' \<notin> set ?p \<longrightarrow> split_slash r = [?d, ?p, short_id])"
    using s l a three by (intro exI [of _ ?id]) simp
  moreover have "length (split_slash r) = 3 \<longleftrightarrow> CHR ''/'' \<notin> set ?d \<and> CHR ''/'' \<notin> set ?p"
    using count by (simp add: one_piece_iff)
  ultimately show "(\<exists>short_id.
      split_slash r = split_slash ?d @ split_slash ?p @ [short_id] \<and>
      length short_id = nat (random_digits (settings_of w self)) \<and>
      (0 \<le> random_digits (settings_of w self) \<longrightarrow>
         int (length short_id) = random_digits (settings_of w self)) \<and>
      set short_id \<subseteq> set alphabet \<and>
      (CHR ''/'' \<notin> set ?d \<and> CHR ''/'' \<notin> set ?p \<longrightarrow> split_slash r = [?d, ?p, short_id])) \<and>
   (length (split_slash r) = 3 \<longleftrightarrow> CHR ''/'' \<notin> set ?d \<and> CHR ''/'' \<notin> set ?p)"
    by blast
qed

theorem generate_split_witness:
  "generate 0 ''http://www.google.com'' (example_world example_settings service_absent) =
     Some (Inr ''shor.ty/a/dkry'',
           written 0 (example_world example_settings service_absent) 0 ''http://www.google.com'') \<and>
   CHR ''/'' \<notin> set (cloudfront_distro (settings_of (example_world example_settings service_absent) 0)) \<and>
   CHR ''/'' \<notin> set (prefix (settings_of (example_world example_settings service_absent) 0)) \<and>
   split_slash ''shor.ty/a/dkry'' = [''shor.ty'', ''a'', ''dkry''] \<and>
   length (split_slash ''shor.ty/a/dkry'') = 3"
proof -
  let ?w = "example_world example_settings service_absent"
  let ?url = "''http://www.google.com''"
  have g: "generate 0 ?url ?w = Some (Inr ''shor.ty/a/dkry'', written 0 ?w 0 ?url)"
    by (simp add: generate_example short_url_example)
  have d: "CHR ''/'' \<notin> set (cloudfront_distro (settings_of ?w 0))"
    "CHR ''/'' \<notin> set (prefix (settings_of ?w 0))"
    by (simp_all add: example_settings_def)
  from generate_split [of 0 ?url ?w "''shor.ty/a/dkry''" "written 0 ?w 0 ?url"] g d
  have "length (split_slash ''shor.ty/a/dkry'') = 3"
    by blast
  moreover have "split_slash ''shor.ty/a/dkry'' = [''shor.ty'', ''a'', ''dkry'']"
    by code_simp
  ultimately show ?thesis
    using g d by blast
qed

text \<open>
  C6 as the specification states it fails for a prefix with a slash, which \<open>Settings\<close> accepts: the
  distribution host \<open>shor.ty\<close> is a single component, and the url that \<open>generate\<close> returns
  for the prefix \<open>a/b\<close> splits into 4 pieces, not 3.
\<close>

theorem generate_split_counterexample:
  "generate 0 ''http://www.google.com'' (example_world slash_settings service_absent) =
     Some (Inr ''shor.ty/a/b/dkry'',
           written 0 (example_world slash_settings service_absent) 0 ''http://www.google.com'') \<and>
   split_slash (cloudfront_distro (settings_of (example_world slash_settings service_absent) 0)) =
     [''shor.ty''] \<and>
   split_slash ''shor.ty/a/b/dkry'' = [''shor.ty'', ''a'', ''b'', ''dkry''] \<and>
   length (split_slash ''shor.ty/a/b/dkry'') \<noteq> 3"
proof -
  have "split_slash (cloudfront_distro (settings_of (example_world slash_settings service_absent) 0)) =
     [''shor.ty'']"
    by (simp add: slash_settings_def example_settings_def)
  moreover have "split_slash ''shor.ty/a/b/dkry'' = [''shor.ty'', ''a'', ''b'', ''dkry'']"
    by code_simp
  ultimately show ?thesis
    by (simp add: generate_example short_url_slash_example)
qed

text \<open>
  C10. When \<open>random_digits\<close> is zero or negative, \<open>generate_random\<close> returns the empty string
  without drawing anything and without raising. Every candidate key is then
  \<open>prefix + "/"\<close>, and once the probe reports it absent (and the write succeeds)
  \<open>generate\<close> returns exactly \<open>cloudfront_distro + "/" + prefix + "/"\<close>; it never returns
  another url.
\<close>

theorem generate_without_digits:
  "random_digits (settings_of w self) \<le> 0 \<longrightarrow>
   generate_random self w = ([], w) \<and>
   (\<forall>r w'. generate self native_url w = Some (Inr r, w') \<longrightarrow>
      r = cloudfront_distro (settings_of w self) @ ''/'' @ prefix (settings_of w self) @ ''/'') \<and>
   ((\<forall>k<N. reports_exists self w k) \<and> reports_absent self w N \<and>
    write_response self w N native_url = None \<longrightarrow>
      (\<exists>w'. generate self native_url w =
         Some (Inr (cloudfront_distro (settings_of w self) @ ''/'' @
                    prefix (settings_of w self) @ ''/''), w')))"
proof (intro impI conjI allI)
  assume neg: "random_digits (settings_of w self) \<le> 0"
  then show "generate_random self w = ([], w)"
    by (simp add: generate_random_def)
  have id: "candidate_id self w n = []" for n
    using neg length_candidate_id [of self w n] by (simp add: ndigits_def)
  have url: "short_url self w n =
      cloudfront_distro (settings_of w self) @ ''/'' @ prefix (settings_of w self) @ ''/''" for n
    by (simp add: short_url_eq id)
  {
    fix r w'
    assume "generate self native_url w = Some (Inr r, w')"
    then obtain n where "r = short_url self w n"
      using generate_returns by blast
    then show "r = cloudfront_distro (settings_of w self) @ ''/'' @ prefix (settings_of w self) @ ''/''"
      by (simp add: url)
  }
  assume a: "(\<forall>k<N. reports_exists self w k) \<and> reports_absent self w N \<and>
    write_response self w N native_url = None"
  then have ex: "\<forall>k<N. probe_response self w k = None"
    by (simp add: reports_exists_def)
  from a obtain e where e: "probe_response self w N = Some e" "except_ClientError e = Inr False"
    by (auto simp: reports_absent_iff)
  from generate_absent [OF ex e, of native_url] a
  show "\<exists>w'. generate self native_url w =
         Some (Inr (cloudfront_distro (settings_of w self) @ ''/'' @
                    prefix (settings_of w self) @ ''/''), w')"
    by (simp add: url)
qed

theorem generate_without_digits_witness:
  "random_digits (settings_of (example_world no_digits_settings service_absent) 0) \<le> 0 \<and>
   generate_random 0 (example_world no_digits_settings service_absent) =
     ([], example_world no_digits_settings service_absent) \<and>
   reports_absent 0 (example_world no_digits_settings service_absent) 0 \<and>
   write_response 0 (example_world no_digits_settings service_absent) 0 ''http://www.google.com''
     = None \<and>
   (\<exists>w'. generate 0 ''http://www.google.com'' (example_world no_digits_settings service_absent) =
      Some (Inr ''shor.ty/a/'', w')) \<and>
   random_digits (settings_of (example_world zero_digits_settings service_absent) 0) \<le> 0 \<and>
   generate_random 0 (example_world zero_digits_settings service_absent) =
     ([], example_world zero_digits_settings service_absent)"
proof -
  let ?w = "example_world no_digits_settings service_absent"
  let ?v = "example_world zero_digits_settings service_absent"
  let ?url = "''http://www.google.com''"
  have d: "random_digits (settings_of ?w 0) \<le> 0" "random_digits (settings_of ?v 0) \<le> 0"
    by (simp_all add: no_digits_settings_def zero_digits_settings_def)
  have s: "cloudfront_distro (settings_of ?w 0) @ ''/'' @ prefix (settings_of ?w 0) @ ''/'' =
    ''shor.ty/a/''"
    by (simp add: no_digits_settings_def example_settings_def)
  have h: "\<forall>k<0. reports_exists 0 ?w k" by simp
  note a = absent_example [of no_digits_settings 0]
  note p = write_example [of no_digits_settings 0 ?url]
  from generate_without_digits [of ?w 0 ?url 0] d(1) h a p
  have "generate_random 0 ?w = ([], ?w)"
    and "\<exists>w'. generate 0 ?url ?w = Some (Inr (cloudfront_distro (settings_of ?w 0) @ ''/'' @
           prefix (settings_of ?w 0) @ ''/''), w')"
    by blast+
  then have "generate_random 0 ?w = ([], ?w)"
    and "\<exists>w'. generate 0 ?url ?w = Some (Inr ''shor.ty/a/'', w')"
    unfolding s by blast+
  moreover from generate_without_digits [of ?v 0 ?url 0] d(2)
  have "generate_random 0 ?v = ([], ?v)"
    by blast
  ultimately show ?thesis
    using d a p by blast
qed

subsection \<open>The cached client and the settings\<close>






lemma init_fields [simp]:
  "cached_client (init self s w) = cached_client w"
  "clients (init self s w) = clients w"
  "requests (init self s w) = requests w"
  "settings_of (init self s w) = (settings_of w)(self := s)"
  by (simp_all add: init_def cached_client_def)

lemma generate_random_fields [simp]:
  "cached_client (snd (generate_random self w)) = cached_client w"
  "clients (snd (generate_random self w)) = clients w"
  "requests (snd (generate_random self w)) = requests w"
  "settings_of (snd (generate_random self w)) = settings_of w"
  by (simp_all add: generate_random_def join_choices_snd cached_client_def)


lemma generate_world:
  assumes "generate self native_url w = Some (r, w')"
  shows "\<exists>n. w' = (retry self ^^ Suc n) w \<or> w' = written self w n native_url"
proof -
  from generate_result [OF assms] obtain n e where
    c: "case except_ClientError e of
        Inl e' \<Rightarrow> (r, w') = (Inl e', (retry self ^^ Suc n) w)
      | Inr b \<Rightarrow> (r, w') = (case write_response self w n native_url of
             Some e' \<Rightarrow> Inl e'
           | None \<Rightarrow> Inr (short_url self w n), written self w n native_url)"
    by blast
  have "w' = (retry self ^^ Suc n) w \<or> w' = written self w n native_url"
  proof (cases "except_ClientError e")
    case (Inl e')
    with c show ?thesis by simp
  next
    case (Inr b)
    with c show ?thesis by simp
  qed
  then show ?thesis by blast
qed






lemma init_more_fields [simp]:
  "respond (init self s w) = respond w"
  "entropy (init self s w) = entropy w"
  "draws (init self s w) = draws w"
  by (simp_all add: init_def)

lemma s3_client_settings [simp]:
  "settings_of (snd (s3_client self w)) = settings_of w"
  by (simp add: s3_client_eq)

lemma exists_s3_key_settings [simp]:
  "settings_of (snd (exists_s3_key self key w)) = settings_of w"
  by (simp add: exists_s3_key_eq)

lemma upload_object_settings [simp]:
  "settings_of (snd (upload_object self key native_url w)) = settings_of w"
  by (simp add: upload_object_eq)

lemma generate_settings:
  assumes "generate self native_url w = Some (r, w')"
  shows "settings_of w' = settings_of w"
proof -
  from generate_world [OF assms] obtain n where
    "w' = (retry self ^^ Suc n) w \<or> w' = written self w n native_url"
    by blast
  then show ?thesis
    by (auto simp del: funpow.simps)
qed

text \<open>
  Run one after the other, the lines of \<open>_cached_property\<close> are the property itself.
\<close>

lemma make_cached_property_steps:
  "make_cached_property func_name func cache_on_class self w =
     (let w1 = (if cache_missing func_name cache_on_class self w
                then cache_fill func_name func cache_on_class self w
                else w)
      in (cache_read func_name cache_on_class self w1, w1))"
  by (simp add: make_cached_property_def cache_missing_def cache_fill_def cache_read_def
      cache_owner_def Let_def)

lemma s3_client_steps:
  "s3_client self w =
     (let w1 = (if cache_missing ''s3_client'' True self w
                then cache_fill ''s3_client'' s3_client_func True self w
                else w)
      in (cache_read ''s3_client'' True self w1, w1))"
  by (simp add: s3_client_def class_cached_property_def make_cached_property_steps)




text \<open>
  C8, as the code has it. \<open>Settings\<close> is a plain dataclass, not a frozen one: assigning to
  a field succeeds and stores the new value. \<open>ShortUrl\<close> itself only reads the settings:
  \<open>__init__\<close> stores the object it is given, and no other operation (\<open>s3_client\<close>,
  \<open>generate_random\<close>, \<open>exists_s3_key\<close>, \<open>upload_object\<close>, \<open>generate\<close>) changes the settings
  of any instance.
\<close>

theorem settings_only_read:
  "Settings_setattr upd s = Inr (upd s) \<and>
   settings_of (init self s w) self = s \<and>
   settings_of (snd (s3_client self w)) = settings_of w \<and>
   settings_of (snd (generate_random self w)) = settings_of w \<and>
   settings_of (snd (exists_s3_key self key w)) = settings_of w \<and>
   settings_of (snd (upload_object self key native_url w)) = settings_of w \<and>
   (\<forall>r w'. generate self native_url w = Some (r, w') \<longrightarrow> settings_of w' = settings_of w)"
  using generate_settings [of self native_url w]
  by (simp add: Settings_setattr_def Settings_frozen_def)

theorem settings_only_read_witness:
  "generate 0 ''http://www.google.com'' (example_world example_settings service_absent) =
     Some (Inr ''shor.ty/a/dkry'',
           written 0 (example_world example_settings service_absent) 0 ''http://www.google.com'') \<and>
   settings_of (written 0 (example_world example_settings service_absent) 0 ''http://www.google.com'')
     = settings_of (example_world example_settings service_absent) \<and>
   Settings_setattr (\<lambda>s. s\<lparr>random_digits := 6\<rparr>) example_settings =
     Inr (example_settings\<lparr>random_digits := 6\<rparr>)"
proof -
  let ?w = "example_world example_settings service_absent"
  let ?url = "''http://www.google.com''"
  have g: "generate 0 ?url ?w = Some (Inr ''shor.ty/a/dkry'', written 0 ?w 0 ?url)"
    by (simp add: generate_example short_url_example)
  from settings_only_read [where upd = "\<lambda>s. s\<lparr>random_digits := 6\<rparr>" and s = example_settings
      and self = 0 and w = ?w and native_url = ?url] g
  show ?thesis by blast
qed

text \<open>
  C8 as the specification states it fails: a field of a constructed \<open>Settings\<close> can be reassigned.
  The assignment \<^verbatim>\<open>settings.region = "eu-west-1"\<close> raises nothing and changes the region.
\<close>

theorem settings_reassigned_counterexample:
  "Settings_setattr (\<lambda>s. s\<lparr>region := ''eu-west-1''\<rparr>) example_settings =
     Inr (example_settings\<lparr>region := ''eu-west-1''\<rparr>) \<and>
   region example_settings = ''us-east-1'' \<and>
   region (example_settings\<lparr>region := ''eu-west-1''\<rparr>) = ''eu-west-1''"
  by (simp add: Settings_setattr_def Settings_frozen_def example_settings_def)

subsection \<open>Further properties\<close>

text \<open>
  The write of \<open>generate\<close>. A url is returned only after a write, which is the last request
  sent: a \<open>put_object\<close> to the configured bucket with an empty body, the content type
  \<open>text/plain\<close> and the native url as redirect location, for the very key that the last
  probe reported absent; the url returned is \<open>cloudfront_distro + "/" +\<close> that key.
\<close>

theorem generate_writes_probed_key:
  "generate self native_url w = Some (Inr r, w') \<longrightarrow>
   (\<exists>key c probes.
      sent w w' = probes @
        [(c, HeadObject (bucket (settings_of w self)) key),
         (c, PutObject \<lparr>Bucket = bucket (settings_of w self), Key = key, Body = [],
                         WebsiteRedirectLocation = native_url, ContentType = ''text/plain''\<rparr>)] \<and>
      r = cloudfront_distro (settings_of w self) @ ''/'' @ key)"
proof (intro impI)
  assume "generate self native_url w = Some (Inr r, w')"
  from generate_returns [OF this] obtain n where
    n: "r = short_url self w n" "w' = written self w n native_url"
    by blast
  have "sent w w' = probe_requests self w n @
        [(client_for self w, HeadObject (bucket (settings_of w self)) (candidate self w n)),
         (client_for self w,
          PutObject \<lparr>Bucket = bucket (settings_of w self), Key = candidate self w n, Body = [],
                     WebsiteRedirectLocation = native_url, ContentType = ''text/plain''\<rparr>)]"
    unfolding n sent_def
    by (simp add: probe_requests_def probe_request_def write_request_def upload_kwargs_def)
  moreover have "r = cloudfront_distro (settings_of w self) @ ''/'' @ candidate self w n"
    unfolding n by (simp add: short_url_def format2_def)
  ultimately show "\<exists>key c probes.
      sent w w' = probes @
        [(c, HeadObject (bucket (settings_of w self)) key),
         (c, PutObject \<lparr>Bucket = bucket (settings_of w self), Key = key, Body = [],
                         WebsiteRedirectLocation = native_url, ContentType = ''text/plain''\<rparr>)] \<and>
      r = cloudfront_distro (settings_of w self) @ ''/'' @ key"
    by blast
qed

theorem generate_writes_probed_key_witness:
  "generate 0 ''http://www.google.com'' (example_world example_settings service_absent) =
     Some (Inr ''shor.ty/a/dkry'',
           written 0 (example_world example_settings service_absent) 0 ''http://www.google.com'') \<and>
   (\<exists>key c probes.
      sent (example_world example_settings service_absent)
        (written 0 (example_world example_settings service_absent) 0 ''http://www.google.com'') =
      probes @
        [(c, HeadObject ''b'' key),
         (c, PutObject \<lparr>Bucket = ''b'', Key = key, Body = [],
                         WebsiteRedirectLocation = ''http://www.google.com'',
                         ContentType = ''text/plain''\<rparr>)] \<and>
      ''shor.ty/a/dkry'' = ''shor.ty'' @ ''/'' @ key)"
proof -
  let ?w = "example_world example_settings service_absent"
  let ?url = "''http://www.google.com''"
  have g: "generate 0 ?url ?w = Some (Inr ''shor.ty/a/dkry'', written 0 ?w 0 ?url)"
    by (simp add: generate_example short_url_example)
  have s: "bucket (settings_of ?w 0) = ''b''" "cloudfront_distro (settings_of ?w 0) = ''shor.ty''"
    by (simp_all add: example_settings_def)
  from generate_writes_probed_key
    [where self = 0 and native_url = ?url and w = ?w and r = "''shor.ty/a/dkry''"
       and w' = "written 0 ?w 0 ?url"] g
  show ?thesis unfolding s by blast
qed

text \<open>
  A failed write. If the write raises after the probe reported the key absent, \<open>generate\<close>
  raises that exception and returns no url; it sends nothing after the write (no second
  attempt).
\<close>

theorem generate_propagates_write_error:
  "(\<forall>k<N. reports_exists self w k) \<and> reports_absent self w N \<and>
   write_response self w N native_url = Some e \<longrightarrow>
   (\<exists>w'. generate self native_url w = Some (Inl e, w') \<and>
      sent w w' = probe_requests self w (Suc N) @
                  [write_request self w (candidate self w N) native_url])"
proof (intro impI)
  assume a: "(\<forall>k<N. reports_exists self w k) \<and> reports_absent self w N \<and>
   write_response self w N native_url = Some e"
  then have ex: "\<forall>k<N. probe_response self w k = None"
    by (simp add: reports_exists_def)
  from a obtain e' where e: "probe_response self w N = Some e'" "except_ClientError e' = Inr False"
    by (auto simp: reports_absent_iff)
  from generate_absent [OF ex e, of native_url] a
  show "\<exists>w'. generate self native_url w = Some (Inl e, w') \<and>
      sent w w' = probe_requests self w (Suc N) @
                  [write_request self w (candidate self w N) native_url]"
    by (simp add: sent_def)
qed

theorem generate_propagates_write_error_witness:
  "reports_absent 0 (example_world example_settings (service_fail 0 (ClientError ''403''))) 0 \<and>
   write_response 0 (example_world example_settings (service_fail 0 (ClientError ''403''))) 0
     ''http://www.google.com'' = Some (ClientError ''403'') \<and>
   (\<exists>w'. generate 0 ''http://www.google.com''
            (example_world example_settings (service_fail 0 (ClientError ''403'')))
          = Some (Inl (ClientError ''403''), w'))"
proof -
  let ?w = "example_world example_settings (service_fail 0 (ClientError ''403''))"
  let ?url = "''http://www.google.com''"
  have h1: "reports_absent 0 ?w 0"
    by (simp add: reports_absent_def service_fail_def)
  have h2: "write_response 0 ?w 0 ?url = Some (ClientError ''403'')"
    by (simp add: write_response_def service_fail_def)
  have h0: "\<forall>k<0. reports_exists 0 ?w k" by simp
  from generate_propagates_write_error
    [where N = 0 and self = 0 and w = ?w and native_url = ?url and e = "ClientError ''403''"]
    h0 h1 h2
  have "\<exists>w'. generate 0 ?url ?w = Some (Inl (ClientError ''403''), w')"
    by blast
  with h1 h2 show ?thesis by blast
qed

text \<open>
  Construction of \<open>Settings\<close>. Without one of \<open>region\<close>, \<open>bucket\<close>, \<open>prefix\<close>,
  \<open>cloudfront_distro\<close> the constructor raises \<open>TypeError\<close>; with the four of them it
  succeeds whatever their values are, and \<open>random_digits\<close> and \<open>boto_signature_version\<close>
  default to 8 and \<open>s3v4\<close>.
\<close>

theorem Settings_new_required:
  "(rgn = None \<or> bkt = None \<or> pfx = None \<or> distro = None \<longrightarrow>
      Settings_new rgn bkt pfx distro ndig sig = Inl TypeError) \<and>
   Settings_new (Some r) (Some b) (Some p) (Some d) None None =
      Inr \<lparr>region = r, bucket = b, prefix = p, cloudfront_distro = d,
           random_digits = 8, boto_signature_version = ''s3v4''\<rparr> \<and>
   Settings_new (Some r) (Some b) (Some p) (Some d) (Some n) (Some v) =
      Inr \<lparr>region = r, bucket = b, prefix = p, cloudfront_distro = d,
           random_digits = n, boto_signature_version = v\<rparr>"
  by (auto simp: Settings_new_def default_random_digits_def default_boto_signature_version_def
      split: option.splits)

theorem Settings_new_required_witness:
  "Settings_new None None None None None None = Inl TypeError \<and>
   Settings_new (Some ''blah-blah'') (Some ''blah'') (Some ''a'') None (Some 4) None
     = Inl TypeError \<and>
   Settings_new (Some ''us-east-1'') (Some ''b'') (Some ''a'') (Some ''shor.ty'') (Some 4) None
     = Inr example_settings"
  using Settings_new_required [of None None None None None None]
    Settings_new_required [of "Some ''blah-blah''" "Some ''blah''" "Some ''a''" None "Some 4" None]
  by (simp add: Settings_new_def example_settings_def default_boto_signature_version_def)

end
